theory Spec2Isabelle
  imports Main
begin

section \<open>Python values\<close>

text \<open>
  A Python \<open>str\<close> is a sequence of Unicode code points, so it is modelled as a list of
  natural numbers; \<open>len\<close>, slicing and padding count code points. A well-formed \<open>str\<close>
  only holds code points below \<open>0x110000\<close>. Literals of the source are written with
  \<open>lit\<close>, which reads an ASCII string as its code points.
\<close>

type_synonym pystr = "nat list"

definition lit :: "string \<Rightarrow> pystr" where
  "lit s = map of_char s"

definition valid_str :: "pystr \<Rightarrow> bool" where
  "valid_str s = list_all (\<lambda>c. c < 0x110000) s"

text \<open>
  The values that \<open>json.load\<close> returns and \<open>json.dump\<close> accepts in this program:
  \<open>None\<close>, booleans, integers, strings, lists and dictionaries with string keys.
  A dictionary keeps its insertion order, so it is an association list; its keys are
  distinct. Floats are not modelled.
\<close>

datatype json =
    JNull
  | JBool bool
  | JInt int
  | JStr pystr
  | JList "json list"
  | JObj "(pystr \<times> json) list"

text \<open>\<open>d[k] = v\<close> on an insertion-ordered dictionary.\<close>

fun dict_set :: "(pystr \<times> json) list \<Rightarrow> pystr \<Rightarrow> json \<Rightarrow> (pystr \<times> json) list" where
  "dict_set [] k v = [(k, v)]"
| "dict_set ((k', v') # d) k v =
     (if k' = k then (k, v) # d else (k', v') # dict_set d k v)"

text \<open>\<open>dict(pairs)\<close>: later pairs overwrite earlier ones with the same key.\<close>

definition dict_of :: "(pystr \<times> json) list \<Rightarrow> (pystr \<times> json) list" where
  "dict_of pairs = foldl (\<lambda>d (k, v). dict_set d k v) [] pairs"

text \<open>Truth value of a loaded value, as tested by \<open>if config:\<close>.\<close>

fun truthy :: "json \<Rightarrow> bool" where
  "truthy JNull = False"
| "truthy (JBool b) = b"
| "truthy (JInt n) = (n \<noteq> 0)"
| "truthy (JStr s) = (s \<noteq> [])"
| "truthy (JList xs) = (xs \<noteq> [])"
| "truthy (JObj kvs) = (kvs \<noteq> [])"

text \<open>Truth value of an optional command-line string: \<open>None\<close> and \<open>""\<close> are false.\<close>

fun given :: "pystr option \<Rightarrow> bool" where
  "given None = False"
| "given (Some s) = (s \<noteq> [])"

section \<open>Constants of the module\<close>

definition PHASES :: "pystr list" where
  "PHASES = [lit ''research'', lit ''feasibility-research'', lit ''simulate'',
             lit ''feasibility-data'', lit ''analyze'', lit ''write'']"

section \<open>parse_instruments\<close>

text \<open>
  \<open>str.split(",")\<close>: the pieces between the separators, in order; the empty string gives
  one empty piece. \<open>cur\<close> is the piece being read.
\<close>

fun split_from :: "nat \<Rightarrow> pystr \<Rightarrow> pystr \<Rightarrow> pystr list" where
  "split_from sep cur [] = [cur]"
| "split_from sep cur (c # cs) =
     (if c = sep then cur # split_from sep [] cs else split_from sep (cur @ [c]) cs)"

definition split :: "nat \<Rightarrow> pystr \<Rightarrow> pystr list" where
  "split sep s = split_from sep [] s"

text \<open>
  \<open>str.isspace\<close> on one code point: the code points that CPython's
  \<open>_PyUnicode_IsWhitespace\<close> accepts.
\<close>

definition isspace :: "nat \<Rightarrow> bool" where
  "isspace c \<longleftrightarrow>
     (0x09 \<le> c \<and> c \<le> 0x0D) \<or> (0x1C \<le> c \<and> c \<le> 0x20) \<or> c = 0x85 \<or> c = 0xA0 \<or>
     c = 0x1680 \<or> (0x2000 \<le> c \<and> c \<le> 0x200A) \<or> c = 0x2028 \<or> c = 0x2029 \<or>
     c = 0x202F \<or> c = 0x205F \<or> c = 0x3000"

text \<open>\<open>str.strip()\<close> without argument.\<close>

definition strip :: "pystr \<Rightarrow> pystr" where
  "strip s = rev (dropWhile isspace (rev (dropWhile isspace s)))"

text \<open>\<open>sep.join(parts)\<close>.\<close>

fun join :: "pystr \<Rightarrow> pystr list \<Rightarrow> pystr" where
  "join sep [] = []"
| "join sep [x] = x"
| "join sep (x # y # ys) = x @ sep @ join sep (y # ys)"

definition parse_instruments :: "pystr \<Rightarrow> pystr list" where
  "parse_instruments instruments_str = map strip (split 44 instruments_str)"

section \<open>create_config\<close>

text \<open>
  \<open>now\<close> is the text of \<open>datetime.now().isoformat()\<close> at the moment of the call.
\<close>

definition create_config :: "pystr \<Rightarrow> pystr list \<Rightarrow> int \<Rightarrow> pystr \<Rightarrow> json" where
  "create_config theme instruments sample_size now =
     JObj [(lit ''theme'', JStr theme),
           (lit ''instruments'', JList (map JStr instruments)),
           (lit ''sample_size'', JInt sample_size),
           (lit ''created'', JStr now),
           (lit ''phases'',
              JObj (map (\<lambda>phase. (phase, JObj [(lit ''status'', JStr (lit ''pending''))]))
                        PHASES))]"

section \<open>Exceptions\<close>

text \<open>
  The exceptions the program can raise, as values. \<open>OSError e\<close> is the exception that
  \<open>mkdir\<close> or \<open>open\<close> raises for the error number \<open>e\<close>; only when \<open>open\<close> finds
  no file it is written \<open>FileNotFoundError\<close>, like the exception that \<open>load_config\<close>
  raises itself, and carries the text that \<open>str(e)\<close> gives. \<open>ShapeError\<close>
  stands for the \<open>KeyError\<close>, \<open>TypeError\<close> or \<open>AttributeError\<close> raised by indexing,
  slicing, joining or formatting a loaded value of another shape than the program writes.
  The last three are not exceptions of the program: \<open>Float_not_modelled\<close> marks a JSON
  document with a float in it and \<open>Repr_not_modelled\<close> the \<open>repr\<close> of a list or
  dictionary, both outside this model; \<open>Out_of_fuel\<close> is the end of the recursion
  bound of the decoder, which \<open>json_loads\<close> never reaches.
\<close>

datatype errno = ENOENT | EEXIST | ENOTDIR | EISDIR

datatype exn =
    OSError errno
  | FileNotFoundError pystr
  | JSONDecodeError
  | ShapeError
  | Float_not_modelled
  | Repr_not_modelled
  | Out_of_fuel

section \<open>json.dump with indent=2\<close>

text \<open>\<open>str(n)\<close> for a natural number: its decimal digits.\<close>

function dec :: "nat \<Rightarrow> pystr" where
  "dec n = (if n < 10 then [48 + n] else dec (n div 10) @ [48 + n mod 10])"
  by pat_completeness auto
termination
  by (relation "measure id") auto

declare dec.simps [simp del]

definition int_str :: "int \<Rightarrow> pystr" where
  "int_str i = (if i < 0 then 45 # dec (nat (- i)) else dec (nat i))"

definition hexdigit :: "nat \<Rightarrow> nat" where
  "hexdigit d = (if d < 10 then 48 + d else 87 + d)"

text \<open>\<open>'{0:04x}'.format(n)\<close> for \<open>n < 0x10000\<close>.\<close>

definition hex4 :: "nat \<Rightarrow> pystr" where
  "hex4 n = [hexdigit (n div 4096 mod 16), hexdigit (n div 256 mod 16),
             hexdigit (n div 16 mod 16), hexdigit (n mod 16)]"

text \<open>
  The replacement of one code point by \<open>encode_basestring_ascii\<close>: the short escapes,
  printable ASCII as it is, \<open>\uXXXX\<close> below \<open>0x10000\<close> and a surrogate pair above
  (\<open>0xd800 | ((n >> 10) & 0x3ff)\<close> and \<open>0xdc00 | (n & 0x3ff)\<close> for \<open>n = c - 0x10000\<close>).
\<close>

definition escape_char :: "nat \<Rightarrow> pystr" where
  "escape_char c =
     (if c = 34 then [92, 34]
      else if c = 92 then [92, 92]
      else if c = 10 then [92, 110]
      else if c = 13 then [92, 114]
      else if c = 9 then [92, 116]
      else if c = 8 then [92, 98]
      else if c = 12 then [92, 102]
      else if 32 \<le> c \<and> c \<le> 126 then [c]
      else if c < 0x10000 then [92, 117] @ hex4 c
      else (let v = c - 0x10000
            in [92, 117] @ hex4 (0xD800 + v div 1024 mod 1024) @
               [92, 117] @ hex4 (0xDC00 + v mod 1024)))"

definition encode_basestring_ascii :: "pystr \<Rightarrow> pystr" where
  "encode_basestring_ascii s = 34 # concat (map escape_char s) @ [34]"

definition newline_indent :: "nat \<Rightarrow> pystr" where
  "newline_indent level = 10 # replicate (2 * level) 32"

text \<open>
  The text that \<open>json.dump(v, f, indent=2)\<close> writes, at nesting depth \<open>level\<close>: the item
  separator is \<open>","\<close> followed by the newline and indentation, the key separator \<open>": "\<close>,
  and an empty list or dictionary is \<open>[]\<close> or \<open>{}\<close>.
\<close>

fun iterencode :: "nat \<Rightarrow> json \<Rightarrow> pystr" where
  "iterencode level JNull = lit ''null''"
| "iterencode level (JBool b) = (if b then lit ''true'' else lit ''false'')"
| "iterencode level (JInt n) = int_str n"
| "iterencode level (JStr s) = encode_basestring_ascii s"
| "iterencode level (JList xs) =
     (if xs = [] then lit ''[]''
      else 91 # newline_indent (Suc level) @
           join (44 # newline_indent (Suc level)) (map (iterencode (Suc level)) xs) @
           newline_indent level @ [93])"
| "iterencode level (JObj kvs) =
     (if kvs = [] then lit ''{}''
      else 123 # newline_indent (Suc level) @
           join (44 # newline_indent (Suc level))
             (map (\<lambda>(k, v). encode_basestring_ascii k @ [58, 32] @ iterencode (Suc level) v)
                  kvs) @
           newline_indent level @ [125])"

definition json_dumps :: "json \<Rightarrow> pystr" where
  "json_dumps v = iterencode 0 v"

section \<open>json.load\<close>

text \<open>
  The decoder of CPython's \<open>json\<close> module (the C scanner, which \<open>json.load\<close> uses),
  on the decoded text of the file. Each function returns the value read and the rest of
  the text, or the exception.
\<close>

definition is_ws :: "nat \<Rightarrow> bool" where
  "is_ws c \<longleftrightarrow> c = 32 \<or> c = 9 \<or> c = 10 \<or> c = 13"

definition skip_ws :: "pystr \<Rightarrow> pystr" where
  "skip_ws s = dropWhile is_ws s"

definition hexval :: "nat \<Rightarrow> nat option" where
  "hexval c =
     (if 48 \<le> c \<and> c \<le> 57 then Some (c - 48)
      else if 97 \<le> c \<and> c \<le> 102 then Some (c - 87)
      else if 65 \<le> c \<and> c \<le> 70 then Some (c - 55)
      else None)"

text \<open>The four hexadecimal digits after \<open>\u\<close>.\<close>

fun decode_uXXXX :: "pystr \<Rightarrow> nat option" where
  "decode_uXXXX (a # b # c # d # rest) =
     (case (hexval a, hexval b, hexval c, hexval d) of
        (Some x, Some y, Some z, Some w) \<Rightarrow> Some (((x * 16 + y) * 16 + z) * 16 + w)
      | _ \<Rightarrow> None)"
| "decode_uXXXX _ = None"

definition unescape :: "nat \<Rightarrow> nat option" where
  "unescape e =
     (if e = 34 then Some 34
      else if e = 92 then Some 92
      else if e = 47 then Some 47
      else if e = 98 then Some 8
      else if e = 102 then Some 12
      else if e = 110 then Some 10
      else if e = 114 then Some 13
      else if e = 116 then Some 9
      else None)"

definition is_high_surrogate :: "nat \<Rightarrow> bool" where
  "is_high_surrogate c \<longleftrightarrow> 0xD800 \<le> c \<and> c \<le> 0xDBFF"

definition is_low_surrogate :: "nat \<Rightarrow> bool" where
  "is_low_surrogate c \<longleftrightarrow> 0xDC00 \<le> c \<and> c \<le> 0xDFFF"

definition join_surrogates :: "nat \<Rightarrow> nat \<Rightarrow> nat" where
  "join_surrogates hi lo = 0x10000 + ((hi - 0xD800) * 1024 + (lo - 0xDC00))"

definition cons_char :: "nat \<Rightarrow> exn + pystr \<times> pystr \<Rightarrow> exn + pystr \<times> pystr" where
  "cons_char c r = (case r of Inl e \<Rightarrow> Inl e | Inr (s, rest) \<Rightarrow> Inr (c # s, rest))"

text \<open>
  \<open>scanstring\<close>, from the character after the opening quote, in strict mode: a quote
  ends the string, a backslash starts an escape, a control character is an error. A
  \<open>\uXXXX\<close> escape of a high surrogate that is followed by a \<open>\uXXXX\<close> escape of a low
  surrogate is read as the one code point the pair encodes.
\<close>

fun scanstring :: "pystr \<Rightarrow> exn + pystr \<times> pystr" where
  "scanstring [] = Inl JSONDecodeError"
| "scanstring (c # cs) =
     (if c = 34 then Inr ([], cs)
      else if c = 92 then
        (case cs of
           [] \<Rightarrow> Inl JSONDecodeError
         | e # cs1 \<Rightarrow>
             if e = 117 then
               (case decode_uXXXX cs1 of
                  None \<Rightarrow> Inl JSONDecodeError
                | Some uni \<Rightarrow>
                    if is_high_surrogate uni \<and> take 2 (drop 4 cs1) = [92, 117] then
                      (case decode_uXXXX (drop 6 cs1) of
                         None \<Rightarrow> Inl JSONDecodeError
                       | Some uni2 \<Rightarrow>
                           if is_low_surrogate uni2
                           then cons_char (join_surrogates uni uni2) (scanstring (drop 10 cs1))
                           else cons_char uni (scanstring (drop 4 cs1)))
                    else cons_char uni (scanstring (drop 4 cs1)))
             else
               (case unescape e of
                  None \<Rightarrow> Inl JSONDecodeError
                | Some ch \<Rightarrow> cons_char ch (scanstring cs1)))
      else if c < 32 then Inl JSONDecodeError
      else cons_char c (scanstring cs))"

definition is_digit :: "nat \<Rightarrow> bool" where
  "is_digit c \<longleftrightarrow> 48 \<le> c \<and> c \<le> 57"

definition nat_of_digits :: "pystr \<Rightarrow> nat" where
  "nat_of_digits ds = foldl (\<lambda>a c. 10 * a + (c - 48)) 0 ds"

text \<open>
  What follows the integer digits makes the number a float: a point and a digit, or an
  exponent letter, an optional sign and a digit.
\<close>

definition is_float_tail :: "pystr \<Rightarrow> bool" where
  "is_float_tail s =
     (case s of
        [] \<Rightarrow> False
      | c # cs \<Rightarrow>
          if c = 46 then (case cs of [] \<Rightarrow> False | d # _ \<Rightarrow> is_digit d)
          else if c = 101 \<or> c = 69 then
            (case cs of
               [] \<Rightarrow> False
             | d # ds \<Rightarrow>
                 if d = 43 \<or> d = 45 then (case ds of [] \<Rightarrow> False | d' # _ \<Rightarrow> is_digit d')
                 else is_digit d)
          else False)"

text \<open>The digits of a number, after its sign: a single \<open>0\<close>, or a nonzero digit and more.\<close>

definition match_digits :: "bool \<Rightarrow> pystr \<Rightarrow> exn + json \<times> pystr" where
  "match_digits negative s =
     (case s of
        [] \<Rightarrow> Inl JSONDecodeError
      | d # cs \<Rightarrow>
          if \<not> is_digit d then Inl JSONDecodeError
          else
            let ds = (if d = 48 then [d] else d # takeWhile is_digit cs);
                rest = (if d = 48 then cs else dropWhile is_digit cs)
            in if is_float_tail rest then Inl Float_not_modelled
               else Inr (JInt (if negative then - int (nat_of_digits ds)
                               else int (nat_of_digits ds)), rest))"

definition match_number :: "pystr \<Rightarrow> exn + json \<times> pystr" where
  "match_number s =
     (case s of
        [] \<Rightarrow> Inl JSONDecodeError
      | c # cs \<Rightarrow> if c = 45 then match_digits True cs else match_digits False s)"

text \<open>
  \<open>scan_once\<close> reads one value; \<open>parse_elements\<close> is the loop of \<open>JSONArray\<close> from
  its first value on, and \<open>parse_members\<close> the loop of \<open>JSONObject\<close> from the character
  after the opening quote of a key on. The first argument bounds the number of nested
  calls and only serves to make the recursion well-founded.
\<close>

fun scan_once :: "nat \<Rightarrow> pystr \<Rightarrow> exn + json \<times> pystr"
  and parse_elements :: "nat \<Rightarrow> pystr \<Rightarrow> exn + json list \<times> pystr"
  and parse_members :: "nat \<Rightarrow> pystr \<Rightarrow> exn + (pystr \<times> json) list \<times> pystr"
where
  "scan_once 0 s = Inl Out_of_fuel"
| "scan_once (Suc fuel) s =
     (case s of
        [] \<Rightarrow> Inl JSONDecodeError
      | c # cs \<Rightarrow>
          if c = 34 then
            (case scanstring cs of
               Inl e \<Rightarrow> Inl e
             | Inr (str, rest) \<Rightarrow> Inr (JStr str, rest))
          else if c = 123 then
            (case skip_ws cs of
               [] \<Rightarrow> Inl JSONDecodeError
             | c1 # cs1 \<Rightarrow>
                 if c1 = 125 then Inr (JObj [], cs1)
                 else if c1 = 34 then
                   (case parse_members fuel cs1 of
                      Inl e \<Rightarrow> Inl e
                    | Inr (pairs, rest) \<Rightarrow> Inr (JObj (dict_of pairs), rest))
                 else Inl JSONDecodeError)
          else if c = 91 then
            (case skip_ws cs of
               [] \<Rightarrow> Inl JSONDecodeError
             | c1 # cs1 \<Rightarrow>
                 if c1 = 93 then Inr (JList [], cs1)
                 else
                   (case parse_elements fuel (c1 # cs1) of
                      Inl e \<Rightarrow> Inl e
                    | Inr (values, rest) \<Rightarrow> Inr (JList values, rest)))
          else if take 4 s = lit ''null'' then Inr (JNull, drop 4 s)
          else if take 4 s = lit ''true'' then Inr (JBool True, drop 4 s)
          else if take 5 s = lit ''false'' then Inr (JBool False, drop 5 s)
          else if take 3 s = lit ''NaN'' \<or> take 8 s = lit ''Infinity'' \<or>
                  take 9 s = lit ''-Infinity'' then Inl Float_not_modelled
          else match_number s)"
| "parse_elements 0 s = Inl Out_of_fuel"
| "parse_elements (Suc fuel) s =
     (case scan_once fuel s of
        Inl e \<Rightarrow> Inl e
      | Inr (v, rest) \<Rightarrow>
          (case skip_ws rest of
             [] \<Rightarrow> Inl JSONDecodeError
           | c # cs \<Rightarrow>
               if c = 93 then Inr ([v], cs)
               else if c = 44 then
                 (case parse_elements fuel (skip_ws cs) of
                    Inl e \<Rightarrow> Inl e
                  | Inr (values, rest') \<Rightarrow> Inr (v # values, rest'))
               else Inl JSONDecodeError))"
| "parse_members 0 s = Inl Out_of_fuel"
| "parse_members (Suc fuel) s =
     (case scanstring s of
        Inl e \<Rightarrow> Inl e
      | Inr (key, rest) \<Rightarrow>
          (case skip_ws rest of
             [] \<Rightarrow> Inl JSONDecodeError
           | c # cs \<Rightarrow>
               if c \<noteq> 58 then Inl JSONDecodeError
               else
                 (case scan_once fuel (skip_ws cs) of
                    Inl e \<Rightarrow> Inl e
                  | Inr (v, rest1) \<Rightarrow>
                      (case skip_ws rest1 of
                         [] \<Rightarrow> Inl JSONDecodeError
                       | c1 # cs1 \<Rightarrow>
                           if c1 = 125 then Inr ([(key, v)], cs1)
                           else if c1 = 44 then
                             (case skip_ws cs1 of
                                [] \<Rightarrow> Inl JSONDecodeError
                              | c2 # cs2 \<Rightarrow>
                                  if c2 \<noteq> 34 then Inl JSONDecodeError
                                  else
                                    (case parse_members fuel cs2 of
                                       Inl e \<Rightarrow> Inl e
                                     | Inr (pairs, rest') \<Rightarrow> Inr ((key, v) # pairs, rest')))
                           else Inl JSONDecodeError))))"

text \<open>
  \<open>json.loads\<close>: white space, one value, white space, and nothing more. Twice the
  length of the text bounds the nested calls.
\<close>

definition json_loads :: "pystr \<Rightarrow> exn + json" where
  "json_loads text =
     (case scan_once (2 * length text + 1) (skip_ws text) of
        Inl e \<Rightarrow> Inl e
      | Inr (v, rest) \<Rightarrow> if skip_ws rest = [] then Inr v else Inl JSONDecodeError)"

section \<open>The file system\<close>

text \<open>
  A path is the list of its components below \<open>REPO_ROOT\<close>, the directory of the script,
  which exists; \<open>[]\<close> is \<open>REPO_ROOT\<close> itself. The file system maps a path to the
  directory or the file (with its text) that is there. Permissions are not modelled.
\<close>

type_synonym path = "pystr list"

datatype node = Dir | File pystr

type_synonym filesystem = "path \<Rightarrow> node option"

definition INPUTS_DIR :: path where
  "INPUTS_DIR = [lit ''inputs'']"

definition OUTPUTS_DIR :: path where
  "OUTPUTS_DIR = [lit ''outputs'']"

text \<open>
  Path resolution: the parent is resolved first and has to be a directory, then the
  last component is looked up in it.
\<close>

function stat :: "filesystem \<Rightarrow> path \<Rightarrow> errno + node" where
  "stat fs p =
     (if p = [] then Inr Dir
      else
        (case stat fs (butlast p) of
           Inl e \<Rightarrow> Inl e
         | Inr (File _) \<Rightarrow> Inl ENOTDIR
         | Inr Dir \<Rightarrow> (case fs p of None \<Rightarrow> Inl ENOENT | Some n \<Rightarrow> Inr n)))"
  by pat_completeness auto
termination
  by (relation "measure (\<lambda>(fs, p). length p)") auto

declare stat.simps [simp del]

definition exists :: "filesystem \<Rightarrow> path \<Rightarrow> bool" where
  "exists fs p = (case stat fs p of Inl e \<Rightarrow> False | Inr n \<Rightarrow> True)"

definition is_dir :: "filesystem \<Rightarrow> path \<Rightarrow> bool" where
  "is_dir fs p = (stat fs p = Inr Dir)"

text \<open>\<open>os.mkdir\<close>: the parent has to be a directory and the path itself free.\<close>

definition os_mkdir :: "filesystem \<Rightarrow> path \<Rightarrow> errno + filesystem" where
  "os_mkdir fs p =
     (if p = [] then Inl EEXIST
      else
        (case stat fs (butlast p) of
           Inl e \<Rightarrow> Inl e
         | Inr (File _) \<Rightarrow> Inl ENOTDIR
         | Inr Dir \<Rightarrow> (case fs p of None \<Rightarrow> Inr (fs(p \<mapsto> Dir)) | Some n \<Rightarrow> Inl EEXIST)))"

text \<open>
  \<open>Path.mkdir(parents, exist_ok)\<close> of pathlib: on \<open>FileNotFoundError\<close> with \<open>parents\<close>
  it makes the parent (with its parents) and tries again without \<open>parents\<close>; any other
  \<open>OSError\<close> is swallowed when \<open>exist_ok\<close> holds and the path is a directory. The
  file system of the result holds what was made before an exception.
\<close>

function mkdir :: "bool \<Rightarrow> bool \<Rightarrow> filesystem \<Rightarrow> path \<Rightarrow> (exn + unit) \<times> filesystem" where
  "mkdir parents exist_ok fs p =
     (case os_mkdir fs p of
        Inr fs' \<Rightarrow> (Inr (), fs')
      | Inl e \<Rightarrow>
          if e = ENOENT then
            (if \<not> parents \<or> p = [] then (Inl (OSError ENOENT), fs)
             else
               (case mkdir True True fs (butlast p) of
                  (Inl e', fs') \<Rightarrow> (Inl e', fs')
                | (Inr u, fs') \<Rightarrow> mkdir False exist_ok fs' p))
          else if \<not> exist_ok \<or> \<not> is_dir fs p then (Inl (OSError e), fs)
          else (Inr (), fs))"
  by pat_completeness auto
termination
  by (relation "measure (\<lambda>(parents, exist_ok, fs, p). 2 * length p + (if parents then 1 else 0))")
     auto

declare mkdir.simps [simp del]

text \<open>The loop of \<open>setup_directories\<close>: it stops at the first exception.\<close>

fun mkdir_each :: "filesystem \<Rightarrow> path list \<Rightarrow> (exn + unit) \<times> filesystem" where
  "mkdir_each fs [] = (Inr (), fs)"
| "mkdir_each fs (p # ps) =
     (case mkdir True True fs p of
        (Inl e, fs') \<Rightarrow> (Inl e, fs')
      | (Inr u, fs') \<Rightarrow> mkdir_each fs' ps)"

text \<open>\<open>OUTPUTS_DIR / subdir\<close>: the components of \<open>subdir\<close> are appended.\<close>

definition output_subdirs :: "path list" where
  "output_subdirs =
     map (\<lambda>subdir. OUTPUTS_DIR @ split 47 subdir)
       [lit ''research'', lit ''feasibility'', lit ''data'', lit ''analysis'',
        lit ''thesis/chapters'']"

definition setup_directories :: "filesystem \<Rightarrow> (exn + unit) \<times> filesystem" where
  "setup_directories fs =
     (case mkdir_each fs output_subdirs of
        (Inl e, fs') \<Rightarrow> (Inl e, fs')
      | (Inr u, fs') \<Rightarrow> mkdir False True fs' INPUTS_DIR)"

section \<open>Printing\<close>

text \<open>
  What the program needs from its platform and cannot be read in its source:
  \<open>path_text p\<close> is \<open>str()\<close> of the path \<open>p\<close> below \<open>REPO_ROOT\<close>, \<open>strerror_text p\<close> the
  text of the \<open>FileNotFoundError\<close> that \<open>open\<close> raises for \<open>p\<close>, \<open>resolve s\<close> the place
  of the file that the path \<open>s\<close> of the command line names, \<open>to_int s\<close> the result of
  \<open>int(s)\<close> (\<open>None\<close> when it raises \<open>ValueError\<close>), and \<open>help_text\<close> the text of
  \<open>parser.format_help()\<close>.
\<close>

record env =
  path_text :: "path \<Rightarrow> pystr"
  strerror_text :: "path \<Rightarrow> pystr"
  resolve :: "pystr \<Rightarrow> path"
  to_int :: "pystr \<Rightarrow> int option"
  help_text :: pystr

text \<open>The state of a run: the file system and the text written to standard output.\<close>

record world =
  files :: filesystem
  stdout :: pystr

text \<open>\<open>print(s)\<close> writes \<open>s\<close> and a newline.\<close>

definition print :: "pystr \<Rightarrow> world \<Rightarrow> world" where
  "print s w = w\<lparr>stdout := stdout w @ s @ [10]\<rparr>"

text \<open>
  A sequence of \<open>print\<close> calls whose arguments may raise: the lines are printed up to
  the first that raises.
\<close>

fun print_lines :: "(exn + pystr) list \<Rightarrow> world \<Rightarrow> (exn + unit) \<times> world" where
  "print_lines [] w = (Inr (), w)"
| "print_lines (Inl e # ls) w = (Inl e, w)"
| "print_lines (Inr l # ls) w = print_lines ls (print l w)"

text \<open>A triple-quoted block of the source: a newline, the lines, a newline.\<close>

definition block :: "pystr list \<Rightarrow> pystr" where
  "block ls = 10 # join [10] ls @ [10]"

text \<open>The table \<open>instructions\<close> of \<open>print_phase_instructions\<close>.\<close>
definition instructions_research :: pystr where
  "instructions_research = block
     [lit ''+----------------------------------------------------------------------+'',
      lit ''|  PHASE 1: RESEARCH                                                   |'',
      lit ''+----------------------------------------------------------------------+'',
      lit ''|  Skill: skills/research/SKILL.md                                     |'',
      lit ''|                                                                      |'',
      lit ''|  Tasks:                                                              |'',
      lit ''|  1. Search literature for each construct in the theme                |'',
      lit ''|  2. Gather instrument specifications                                 |'',
      lit ''|  3. Build bibliography (25-40 recent sources)                        |'',
      lit ''|  4. Document expected relationships between constructs               |'',
      lit ''|                                                                      |'',
      lit ''|  Outputs:                                                            |'',
      lit ''|  - outputs/research/literature_review.md                             |'',
      lit ''|  - outputs/research/constructs.json                                  |'',
      lit ''|  - outputs/research/instruments_detailed.json                        |'',
      lit ''|  - outputs/research/bibliography.json                                |'',
      lit ''+----------------------------------------------------------------------+'']"
definition instructions_feasibility_research :: pystr where
  "instructions_feasibility_research = block
     [lit ''+----------------------------------------------------------------------+'',
      lit ''|  PHASE 2: FEASIBILITY - RESEARCH DIRECTION                           |'',
      lit ''+----------------------------------------------------------------------+'',
      lit ''|  Skill: skills/feasibility-research/SKILL.md                         |'',
      lit ''|                                                                      |'',
      lit ''|  CHECKPOINT: Discover the most scientifically relevant direction.    |'',
      lit ''|                                                                      |'',
      lit ''|  Tasks:                                                              |'',
      lit ''|  1. Map established vs. novel findings                               |'',
      lit ''|  2. Identify gaps and opportunities                                  |'',
      lit ''|  3. Evaluate hypothesis options (novelty, feasibility, interest)     |'',
      lit ''|  4. Recommend optimal research direction                             |'',
      lit ''|                                                                      |'',
      lit ''|  Outputs:                                                            |'',
      lit ''|  - outputs/feasibility/research_landscape.json                       |'',
      lit ''|  - outputs/feasibility/direction_recommendation.md                   |'',
      lit ''|  - outputs/feasibility/feasibility_matrix.md                         |'',
      lit ''|                                                                      |'',
      lit ''|  >> Review direction_recommendation.md before proceeding! <<         |'',
      lit ''+----------------------------------------------------------------------+'']"
definition instructions_simulate :: pystr where
  "instructions_simulate = block
     [lit ''+----------------------------------------------------------------------+'',
      lit ''|  PHASE 3: DATA SIMULATION                                            |'',
      lit ''+----------------------------------------------------------------------+'',
      lit ''|  Skill: skills/data-simulator/SKILL.md                               |'',
      lit ''|                                                                      |'',
      lit ''|  Tasks:                                                              |'',
      lit ''|  1. Load instrument specs and refined hypotheses                     |'',
      lit ''|  2. Generate demographics (Romanian sample by default)               |'',
      lit ''|  3. Simulate responses with embedded correlations                    |'',
      lit ''|  4. Compute subscale scores                                          |'',
      lit ''|                                                                      |'',
      lit ''|  Outputs:                                                            |'',
      lit ''|  - outputs/data/demographics.csv                                     |'',
      lit ''|  - outputs/data/responses_raw.csv                                    |'',
      lit ''|  - outputs/data/responses_coded.xlsx                                 |'',
      lit ''|  - outputs/data/simulation_parameters.json                           |'',
      lit ''+----------------------------------------------------------------------+'']"
definition instructions_feasibility_data :: pystr where
  "instructions_feasibility_data = block
     [lit ''+----------------------------------------------------------------------+'',
      lit ''|  PHASE 4: FEASIBILITY - DATA VALIDATION                              |'',
      lit ''+----------------------------------------------------------------------+'',
      lit ''|  Skill: skills/feasibility-data/SKILL.md                             |'',
      lit ''|                                                                      |'',
      lit ''|  CHECKPOINT: Validate data quality before full analysis.             |'',
      lit ''|                                                                      |'',
      lit ''|  Tasks:                                                              |'',
      lit ''|  1. Check if target correlations were achieved                       |'',
      lit ''|  2. Verify scale reliability (alpha >= 0.70)                         |'',
      lit ''|  3. Assess statistical power for planned tests                       |'',
      lit ''|  4. Flag distribution problems                                       |'',
      lit ''|                                                                      |'',
      lit ''|  Outputs:                                                            |'',
      lit ''|  - outputs/feasibility/data_quality.json                             |'',
      lit ''|  - outputs/feasibility/data_feasibility_report.md                    |'',
      lit ''|                                                                      |'',
      lit ''|  Decision:                                                           |'',
      lit ''|  - PROCEED: All checks pass                                          |'',
      lit ''|  - CAUTION: Minor issues, note limitations                           |'',
      lit ''|  - REGENERATE: Critical issues, return to Phase 3                    |'',
      lit ''+----------------------------------------------------------------------+'']"
definition instructions_analyze :: pystr where
  "instructions_analyze = block
     [lit ''+----------------------------------------------------------------------+'',
      lit ''|  PHASE 5: DATA ANALYSIS                                              |'',
      lit ''+----------------------------------------------------------------------+'',
      lit ''|  Skill: skills/data-analysis/SKILL.md                                |'',
      lit ''|                                                                      |'',
      lit ''|  Tasks:                                                              |'',
      lit ''|  1. Compute descriptive statistics                                   |'',
      lit ''|  2. Test hypotheses (correlations, t-tests, ANOVA)                   |'',
      lit ''|  3. Calculate reliability (Cronbach's alpha)                         |'',
      lit ''|  4. Generate visualizations                                          |'',
      lit ''|                                                                      |'',
      lit ''|  Outputs:                                                            |'',
      lit ''|  - outputs/analysis/descriptive_stats.json                           |'',
      lit ''|  - outputs/analysis/hypothesis_tests.json                            |'',
      lit ''|  - outputs/analysis/reliability.json                                 |'',
      lit ''|  - outputs/analysis/figures/*.png                                    |'',
      lit ''|  - outputs/analysis/tables/*.md                                      |'',
      lit ''+----------------------------------------------------------------------+'']"
definition instructions_write :: pystr where
  "instructions_write = block
     [lit ''+----------------------------------------------------------------------+'',
      lit ''|  PHASE 6: THESIS WRITING                                             |'',
      lit ''+----------------------------------------------------------------------+'',
      lit ''|  Skill: skills/thesis-writer/SKILL.md                                |'',
      lit ''|                                                                      |'',
      lit ''|  Tasks:                                                              |'',
      lit ''|  1. Compose Introduction                                             |'',
      lit ''|  2. Write Chapter 1 (Theory) from literature_review.md               |'',
      lit ''|  3. Write Chapter 2 (Methods) from instruments_detailed.json         |'',
      lit ''|  4. Write Chapter 3 (Results) from analysis outputs                  |'',
      lit ''|  5. Write Chapter 4 (Conclusions)                                    |'',
      lit ''|  6. Generate Abstract                                                |'',
      lit ''|  7. Assemble final document                                          |'',
      lit ''|                                                                      |'',
      lit ''|  Outputs:                                                            |'',
      lit ''|  - outputs/thesis/chapters/*.md                                      |'',
      lit ''|  - outputs/thesis/thesis_draft.docx                                  |'',
      lit ''+----------------------------------------------------------------------+'']"
definition instructions :: "(pystr \<times> pystr) list" where
  "instructions =
     [(lit ''research'', instructions_research),
      (lit ''feasibility-research'', instructions_feasibility_research),
      (lit ''simulate'', instructions_simulate),
      (lit ''feasibility-data'', instructions_feasibility_data),
      (lit ''analyze'', instructions_analyze),
      (lit ''write'', instructions_write)]"

text \<open>\<open>print(instructions.get(phase, f"Unknown phase: {phase}"))\<close>.\<close>

definition print_phase_instructions :: "pystr \<Rightarrow> world \<Rightarrow> world" where
  "print_phase_instructions phase w =
     print (case map_of instructions phase of
              None \<Rightarrow> lit ''Unknown phase: '' @ phase
            | Some text \<Rightarrow> text) w"

text \<open>\<open>config[key]\<close>, and \<open>d.get(key, default)\<close>, on a loaded value.\<close>

fun item :: "json \<Rightarrow> pystr \<Rightarrow> exn + json" where
  "item (JObj kvs) key = (case map_of kvs key of None \<Rightarrow> Inl ShapeError | Some v \<Rightarrow> Inr v)"
| "item _ key = Inl ShapeError"

fun get_default :: "json \<Rightarrow> pystr \<Rightarrow> json \<Rightarrow> exn + json" where
  "get_default (JObj kvs) key dflt =
     Inr (case map_of kvs key of None \<Rightarrow> dflt | Some v \<Rightarrow> v)"
| "get_default _ key dflt = Inl ShapeError"

text \<open>\<open>format(s, '<width')\<close> of a string: spaces are added on the right, nothing is cut.\<close>

definition ljust :: "nat \<Rightarrow> pystr \<Rightarrow> pystr" where
  "ljust width s = s @ replicate (width - length s) 32"

text \<open>\<open>{v[:56]:<56}\<close>: only a string can be sliced and then formatted with a width.\<close>

fun slice_format :: "json \<Rightarrow> exn + pystr" where
  "slice_format (JStr s) = Inr (ljust 56 (take 56 s))"
| "slice_format _ = Inl ShapeError"

fun the_JStr :: "json \<Rightarrow> pystr option" where
  "the_JStr (JStr s) = Some s"
| "the_JStr _ = None"

text \<open>
  \<open>', '.join(v)\<close>: the items of a list have to be strings; a string is joined
  character by character and a dictionary by its keys.
\<close>

fun comma_join :: "json \<Rightarrow> exn + pystr" where
  "comma_join (JList xs) =
     (if list_all (\<lambda>x. the_JStr x \<noteq> None) xs
      then Inr (join (lit '', '') (map (\<lambda>x. case the_JStr x of Some s \<Rightarrow> s | None \<Rightarrow> []) xs))
      else Inl ShapeError)"
| "comma_join (JStr s) = Inr (join (lit '', '') (map (\<lambda>c. [c]) s))"
| "comma_join (JObj kvs) = Inr (join (lit '', '') (map fst kvs))"
| "comma_join _ = Inl ShapeError"

text \<open>
  \<open>{v:<width}\<close>: an integer is formatted as its decimal digits, a boolean as the
  integer it is, a string as itself; the other values refuse a format with a width.
\<close>

fun format_left :: "nat \<Rightarrow> json \<Rightarrow> exn + pystr" where
  "format_left width (JInt n) = Inr (ljust width (int_str n))"
| "format_left width (JBool b) = Inr (ljust width (if b then lit ''1'' else lit ''0''))"
| "format_left width (JStr s) = Inr (ljust width s)"
| "format_left width _ = Inl ShapeError"

text \<open>\<open>{v}\<close>, that is \<open>str(v)\<close>.\<close>

fun py_str :: "json \<Rightarrow> exn + pystr" where
  "py_str (JStr s) = Inr s"
| "py_str (JInt n) = Inr (int_str n)"
| "py_str (JBool b) = Inr (if b then lit ''True'' else lit ''False'')"
| "py_str JNull = Inr (lit ''None'')"
| "py_str _ = Inl Repr_not_modelled"

text \<open>An expression inside an f-string, between the text before and after it.\<close>

definition field :: "pystr \<Rightarrow> exn + pystr \<Rightarrow> pystr \<Rightarrow> exn + pystr" where
  "field pre r post =
     (case r of Inl e \<Rightarrow> Inl e | Inr s \<Rightarrow> Inr (pre @ s @ post))"

definition and_then :: "exn + 'a \<Rightarrow> ('a \<Rightarrow> exn + 'b) \<Rightarrow> exn + 'b" where
  "and_then r f = (case r of Inl e \<Rightarrow> Inl e | Inr x \<Rightarrow> f x)"

text \<open>
  The text of \<open>print_full_workflow\<close>: the three fields are evaluated from left to right
  before anything is printed.
\<close>

definition workflow_block :: "pystr \<Rightarrow> pystr \<Rightarrow> pystr \<Rightarrow> pystr" where
  "workflow_block theme_field instruments_field sample_field =
     block
       [lit ''+======================================================================+'',
        lit ''|  THESIS DRAFT GENERATOR                                              |'',
        lit ''+======================================================================+'',
        lit ''|  Theme: '' @ theme_field @ lit '' |'',
        lit ''|  Instruments: '' @ instruments_field @ lit '' |'',
        lit ''|  Sample Size: '' @ sample_field @ lit '' |'',
        lit ''+----------------------------------------------------------------------+'',
        lit ''|  WORKFLOW (6 phases with 2 feasibility checkpoints):                 |'',
        lit ''|                                                                      |'',
        lit ''|  Phase 1: RESEARCH              -> Gather literature & instruments   |'',
        lit ''|  Phase 2: FEASIBILITY-RESEARCH  -> Discover best direction [CHECK]   |'',
        lit ''|  Phase 3: SIMULATE              -> Generate realistic data           |'',
        lit ''|  Phase 4: FEASIBILITY-DATA      -> Validate data quality [CHECK]     |'',
        lit ''|  Phase 5: ANALYZE               -> Statistical analysis              |'',
        lit ''|  Phase 6: WRITE                 -> Compose thesis chapters           |'',
        lit ''|                                                                      |'',
        lit ''|  Execute phases sequentially. Review checkpoints before proceeding.  |'',
        lit ''+======================================================================+'']"

definition workflow_text :: "json \<Rightarrow> exn + pystr" where
  "workflow_text config =
     and_then (and_then (item config (lit ''theme'')) slice_format) (\<lambda>theme_field.
     and_then (and_then (item config (lit ''instruments'')) comma_join) (\<lambda>instruments.
     and_then (and_then (item config (lit ''sample_size'')) (format_left 53)) (\<lambda>sample_field.
       Inr (workflow_block theme_field (ljust 52 instruments) sample_field))))"

definition print_full_workflow :: "json \<Rightarrow> world \<Rightarrow> (exn + unit) \<times> world" where
  "print_full_workflow config w =
     (case workflow_text config of
        Inl e \<Rightarrow> (Inl e, w)
      | Inr text \<Rightarrow> (Inr (), print text w))"

section \<open>save_config and load_config\<close>

text \<open>
  \<open>open(p)\<close> for reading gives the text of the file, \<open>open(p, "w")\<close> with the writes
  that follow leaves a file with the text written. \<open>json.dump\<close> cannot raise on the
  values of this model, so the file is never left half written.
\<close>

definition os_error :: "env \<Rightarrow> path \<Rightarrow> errno \<Rightarrow> exn" where
  "os_error env p e = (if e = ENOENT then FileNotFoundError (strerror_text env p) else OSError e)"

definition open_read :: "env \<Rightarrow> filesystem \<Rightarrow> path \<Rightarrow> exn + pystr" where
  "open_read env fs p =
     (case stat fs p of
        Inl e \<Rightarrow> Inl (os_error env p e)
      | Inr Dir \<Rightarrow> Inl (OSError EISDIR)
      | Inr (File text) \<Rightarrow> Inr text)"

definition open_write :: "env \<Rightarrow> filesystem \<Rightarrow> path \<Rightarrow> pystr \<Rightarrow> exn + filesystem" where
  "open_write env fs p text =
     (if p = [] then Inl (OSError EISDIR)
      else
        (case stat fs (butlast p) of
           Inl e \<Rightarrow> Inl (os_error env p e)
         | Inr (File _) \<Rightarrow> Inl (OSError ENOTDIR)
         | Inr Dir \<Rightarrow>
             (case fs p of
                Some Dir \<Rightarrow> Inl (OSError EISDIR)
              | _ \<Rightarrow> Inr (fs(p \<mapsto> File text)))))"

definition config_path :: path where
  "config_path = INPUTS_DIR @ [lit ''config.json'']"

definition save_config :: "env \<Rightarrow> json \<Rightarrow> world \<Rightarrow> (exn + unit) \<times> world" where
  "save_config env config w =
     (case open_write env (files w) config_path (json_dumps config) of
        Inl e \<Rightarrow> (Inl e, w)
      | Inr fs' \<Rightarrow>
          (Inr (), print (lit ''Configuration saved to '' @ path_text env config_path)
                     (w\<lparr>files := fs'\<rparr>)))"

definition load_config :: "env \<Rightarrow> filesystem \<Rightarrow> exn + json" where
  "load_config env fs =
     (if \<not> exists fs config_path then
        Inl (FileNotFoundError
               (lit ''No configuration found at '' @ path_text env config_path @
                lit ''. Run with --theme and --instruments first.''))
      else
        (case open_read env fs config_path of
           Inl e \<Rightarrow> Inl e
         | Inr text \<Rightarrow> json_loads text))"

section \<open>main\<close>

text \<open>
  The namespace that \<open>parse_args\<close> returns, with the defaults of the declarations.
\<close>

record args =
  arg_theme :: "pystr option"
  arg_instruments :: "pystr option"
  arg_sample :: int
  arg_phase :: "pystr option"
  arg_full :: bool
  arg_status :: bool
  arg_config :: "pystr option"

definition default_args :: args where
  "default_args =
     \<lparr>arg_theme = None, arg_instruments = None, arg_sample = 50, arg_phase = None,
      arg_full = False, arg_status = False, arg_config = None\<rparr>"

text \<open>
  The command line as argparse reads it: the options in their order, each with the
  text of its argument. \<open>Unrecognized\<close> is an argument that no declaration takes and
  \<open>Incomplete\<close> an option whose argument is missing. How argparse finds the options in
  \<open>sys.argv\<close> (abbreviations, \<open>--option=value\<close>) is not modelled.
\<close>

datatype flag =
    Theme pystr
  | Instruments pystr
  | Sample pystr
  | Phase pystr
  | Full
  | Status
  | Config pystr
  | Help
  | Unrecognized
  | Incomplete

datatype parsed = Parsed args | Usage_error | Help_exit

text \<open>
  The actions of the declarations, in the order of the command line: \<open>type=int\<close> and
  \<open>choices=PHASES\<close> end the run with a usage error where they fail, \<open>-h\<close> ends it with
  the help text, and unrecognized arguments are an error at the end.
\<close>

fun parse_flags :: "env \<Rightarrow> bool \<Rightarrow> args \<Rightarrow> flag list \<Rightarrow> parsed" where
  "parse_flags env extras a [] = (if extras then Usage_error else Parsed a)"
| "parse_flags env extras a (Theme s # fl) = parse_flags env extras (a\<lparr>arg_theme := Some s\<rparr>) fl"
| "parse_flags env extras a (Instruments s # fl) =
     parse_flags env extras (a\<lparr>arg_instruments := Some s\<rparr>) fl"
| "parse_flags env extras a (Sample s # fl) =
     (case to_int env s of
        None \<Rightarrow> Usage_error
      | Some n \<Rightarrow> parse_flags env extras (a\<lparr>arg_sample := n\<rparr>) fl)"
| "parse_flags env extras a (Phase s # fl) =
     (if s \<in> set PHASES then parse_flags env extras (a\<lparr>arg_phase := Some s\<rparr>) fl
      else Usage_error)"
| "parse_flags env extras a (Full # fl) = parse_flags env extras (a\<lparr>arg_full := True\<rparr>) fl"
| "parse_flags env extras a (Status # fl) = parse_flags env extras (a\<lparr>arg_status := True\<rparr>) fl"
| "parse_flags env extras a (Config s # fl) =
     parse_flags env extras (a\<lparr>arg_config := Some s\<rparr>) fl"
| "parse_flags env extras a (Help # fl) = Help_exit"
| "parse_flags env extras a (Unrecognized # fl) = parse_flags env True a fl"
| "parse_flags env extras a (Incomplete # fl) = Usage_error"

definition parse_args :: "env \<Rightarrow> flag list \<Rightarrow> parsed" where
  "parse_args env argv = parse_flags env False default_args argv"

text \<open>
  How a run ends: with an exit status, or with an exception that nothing catches (a
  traceback and status 1).
\<close>

datatype exit = Exit nat | Uncaught exn

fun exit_status :: "exit \<Rightarrow> nat" where
  "exit_status (Exit n) = n"
| "exit_status (Uncaught e) = 1"

fun the_str :: "pystr option \<Rightarrow> pystr" where
  "the_str None = []"
| "the_str (Some s) = s"

text \<open>The lines of the \<open>--status\<close> report, each as the argument of its \<open>print\<close>.\<close>

definition status_line :: "json \<Rightarrow> pystr \<Rightarrow> exn + pystr" where
  "status_line config phase =
     and_then (get_default config (lit ''phases'') (JObj [])) (\<lambda>phases.
     and_then (get_default phases phase (JObj [])) (\<lambda>entry.
     and_then (get_default entry (lit ''status'') (JStr (lit ''unknown''))) (\<lambda>status.
       field (lit ''  '' @ (if status = JStr (lit ''pending'') then lit ''  '' else lit ''* '') @
              phase @ lit '': '')
             (py_str status) [])))"

definition status_lines :: "json \<Rightarrow> (exn + pystr) list" where
  "status_lines config =
     [Inr (10 # lit ''Current configuration:''),
      field (lit ''  Theme: '') (and_then (item config (lit ''theme'')) py_str) [],
      field (lit ''  Instruments: '') (and_then (item config (lit ''instruments'')) comma_join) [],
      field (lit ''  Sample: '') (and_then (item config (lit ''sample_size'')) py_str) [],
      Inr (10 # lit ''Phase status:'')] @
     map (status_line config) PHASES"

text \<open>
  The part of \<open>main\<close> under \<open># Handle configuration\<close>. It gives the configuration
  (\<open>JNull\<close> for \<open>None\<close>), or the way the run ends there.
\<close>

definition handle_configuration ::
  "env \<Rightarrow> args \<Rightarrow> pystr \<Rightarrow> world \<Rightarrow> (exit + json) \<times> world" where
  "handle_configuration env a now w =
     (if given (arg_theme a) \<and> given (arg_instruments a) then
        (let instruments = parse_instruments (the_str (arg_instruments a));
             config = create_config (the_str (arg_theme a)) instruments (arg_sample a) now
         in case save_config env config w of
              (Inl e, w') \<Rightarrow> (Inl (Uncaught e), w')
            | (Inr u, w') \<Rightarrow> (Inr config, w'))
      else if given (arg_config a) then
        (case open_read env (files w) (resolve env (the_str (arg_config a))) of
           Inl e \<Rightarrow> (Inl (Uncaught e), w)
         | Inr text \<Rightarrow>
             (case json_loads text of
                Inl e \<Rightarrow> (Inl (Uncaught e), w)
              | Inr config \<Rightarrow> (Inr config, w)))
      else
        (case load_config env (files w) of
           Inr config \<Rightarrow> (Inr config, w)
         | Inl (FileNotFoundError msg) \<Rightarrow>
             if \<not> arg_status a then
               (Inl (Exit 1),
                print (lit ''  python run.py --theme '' @ [34] @ lit ''Your Theme'' @ [34] @
                       lit '' --instruments '' @ [34] @ lit ''SCALE1,SCALE2'' @ [34])
                  (print (10 # lit ''Run with --theme and --instruments to initialize:'')
                     (print (lit ''Error: '' @ msg) w)))
             else (Inr JNull, w)
         | Inl e \<Rightarrow> (Inl (Uncaught e), w)))"

text \<open>The part of \<open>main\<close> under \<open># Execute requested action\<close>.\<close>

definition execute_action :: "env \<Rightarrow> args \<Rightarrow> json \<Rightarrow> world \<Rightarrow> exit \<times> world" where
  "execute_action env a config w =
     (if arg_status a then
        (if truthy config then
           (case print_lines (status_lines config) w of
              (Inl e, w') \<Rightarrow> (Uncaught e, w')
            | (Inr u, w') \<Rightarrow> (Exit 0, w'))
         else
           (Exit 0,
            print (lit ''No configuration found. Initialize with --theme and --instruments.'') w))
      else if given (arg_phase a) then
        (Exit 0, print_phase_instructions (the_str (arg_phase a)) w)
      else if arg_full a \<or> truthy config then
        (case print_full_workflow config w of
           (Inl e, w') \<Rightarrow> (Uncaught e, w')
         | (Inr u, w') \<Rightarrow>
             (Exit 0,
              foldl (\<lambda>w'' phase. print (lit ''  python run.py --phase '' @ phase) w'')
                (print (10 # lit ''To execute a phase, run:'') w') PHASES))
      else (Exit 0, w\<lparr>stdout := stdout w @ help_text env\<rparr>))"

text \<open>
  A run of the program on a command line, at the time \<open>now\<close>, from the state \<open>w\<close>:
  how it ends and the state it leaves.
\<close>

definition main :: "env \<Rightarrow> flag list \<Rightarrow> pystr \<Rightarrow> world \<Rightarrow> exit \<times> world" where
  "main env argv now w =
     (case parse_args env argv of
        Usage_error \<Rightarrow> (Exit 2, w)
      | Help_exit \<Rightarrow> (Exit 0, w\<lparr>stdout := stdout w @ help_text env\<rparr>)
      | Parsed a \<Rightarrow>
          (case setup_directories (files w) of
             (Inl e, fs') \<Rightarrow> (Uncaught e, w\<lparr>files := fs'\<rparr>)
           | (Inr u, fs') \<Rightarrow>
               (case handle_configuration env a now (w\<lparr>files := fs'\<rparr>) of
                  (Inl x, w') \<Rightarrow> (x, w')
                | (Inr config, w') \<Rightarrow> execute_action env a config w')))"

section \<open>Examples and notions used in the statements\<close>

text \<open>A platform on which the repository is at \<open>/repo\<close>, and a state with nothing in it.\<close>

definition example_env :: env where
  "example_env =
     \<lparr>path_text = (\<lambda>p. join [47] (lit ''/repo'' # p)),
      strerror_text = (\<lambda>p. lit ''[Errno 2] No such file or directory''),
      resolve = (\<lambda>s. split 47 s),
      to_int = (\<lambda>s. if s \<noteq> [] \<and> list_all is_digit s then Some (int (nat_of_digits s)) else None),
      help_text = lit ''usage: run.py [-h] [--theme THEME] [--instruments INSTRUMENTS]''\<rparr>"

definition fresh :: world where
  "fresh = \<lparr>files = Map.empty, stdout = []\<rparr>"

text \<open>What \<open>main\<close> prints when \<open>load_config\<close> finds no configuration.\<close>

definition missing_configuration_report :: "env \<Rightarrow> world \<Rightarrow> world" where
  "missing_configuration_report env w =
     print (lit ''  python run.py --theme '' @ [34] @ lit ''Your Theme'' @ [34] @
            lit '' --instruments '' @ [34] @ lit ''SCALE1,SCALE2'' @ [34])
       (print (10 # lit ''Run with --theme and --instruments to initialize:'')
          (print (lit ''Error: No configuration found at '' @ path_text env config_path @
                  lit ''. Run with --theme and --instruments first.'') w))"

text \<open>What \<open>main\<close> prints after the overview.\<close>

definition phase_commands :: "world \<Rightarrow> world" where
  "phase_commands w =
     foldl (\<lambda>w'' phase. print (lit ''  python run.py --phase '' @ phase) w'')
       (print (10 # lit ''To execute a phase, run:'') w) PHASES"

text \<open>The command line without its \<open>--theme\<close> and \<open>--instruments\<close> options.\<close>

fun is_theme_or_instruments :: "flag \<Rightarrow> bool" where
  "is_theme_or_instruments (Theme s) = True"
| "is_theme_or_instruments (Instruments s) = True"
| "is_theme_or_instruments _ = False"

definition without_theme_instruments :: "flag list \<Rightarrow> flag list" where
  "without_theme_instruments argv = filter (\<lambda>f. \<not> is_theme_or_instruments f) argv"

text \<open>The namespace with \<open>theme\<close> and \<open>instruments\<close> put back to \<open>None\<close>.\<close>

definition reset :: "args \<Rightarrow> args" where
  "reset a = a\<lparr>arg_theme := None, arg_instruments := None\<rparr>"

text \<open>
  A string that \<open>json.dump\<close> and \<open>json.load\<close> give back as it is: no code point of a
  high surrogate is directly followed by one of a low surrogate.
\<close>

fun no_surrogate_pair :: "pystr \<Rightarrow> bool" where
  "no_surrogate_pair (a # b # s) =
     (\<not> (is_high_surrogate a \<and> is_low_surrogate b) \<and> no_surrogate_pair (b # s))"
| "no_surrogate_pair _ = True"

section \<open>Properties of parse_instruments and create_config\<close>

lemma split_from_no_sep: "sep \<notin> set t \<Longrightarrow> split_from sep cur t = [cur @ t]"
  by (induction t arbitrary: cur) auto

lemma split_from_sep:
  "sep \<notin> set t \<Longrightarrow> split_from sep cur (t @ sep # rest) = (cur @ t) # split_from sep [] rest"
  by (induction t arbitrary: cur) auto

lemma split_join:
  "toks \<noteq> [] \<Longrightarrow> \<forall>t\<in>set toks. sep \<notin> set t \<Longrightarrow> split sep (join [sep] toks) = toks"
proof (induction "[sep]" toks rule: join.induct)
  case 1
  then show ?case by simp
next
  case (2 x)
  then show ?case by (simp add: split_def split_from_no_sep)
next
  case (3 x y ys)
  then show ?case by (simp add: split_def split_from_sep)
qed

lemma strip_no_space_ends:
  "strip s = [] \<or> (\<not> isspace (hd (strip s)) \<and> \<not> isspace (last (strip s)))"
proof (cases "strip s = []")
  case True
  then show ?thesis by simp
next
  case False
  let ?a = "dropWhile isspace s"
  let ?b = "dropWhile isspace (rev ?a)"
  from False have b: "?b \<noteq> []" by (simp add: strip_def)
  then have hb: "\<not> isspace (hd ?b)" by (rule hd_dropWhile)
  have "?a \<noteq> []"
  proof
    assume a: "?a = []"
    have "?b = []" unfolding a by simp
    with b show False by simp
  qed
  then have ha: "\<not> isspace (hd ?a)" by (rule hd_dropWhile)
  have "last (strip s) = hd ?b" using b by (simp add: strip_def last_rev)
  moreover have "hd (strip s) = last ?b" using b by (simp add: strip_def hd_rev)
  moreover have "last ?b = last (rev ?a)"
    using b by (metis dropWhile_eq_Nil_conv last_appendR takeWhile_dropWhile_id)
  moreover have "last (rev ?a) = hd ?a" using \<open>?a \<noteq> []\<close> by (simp add: last_rev)
  ultimately show ?thesis using ha hb by simp
qed

lemma strip_decompose:
  "\<exists>pre post. s = pre @ strip s @ post \<and> list_all isspace pre \<and> list_all isspace post"
proof -
  let ?a = "dropWhile isspace s"
  have 1: "s = takeWhile isspace s @ ?a" by simp
  have 2: "rev ?a = takeWhile isspace (rev ?a) @ dropWhile isspace (rev ?a)" by simp
  have "?a = rev (rev ?a)" by simp
  also have "\<dots> = rev (dropWhile isspace (rev ?a)) @ rev (takeWhile isspace (rev ?a))"
    by (subst 2) (simp only: rev_append)
  finally have 3: "?a = strip s @ rev (takeWhile isspace (rev ?a))" by (simp add: strip_def)
  have "s = takeWhile isspace s @ strip s @ rev (takeWhile isspace (rev ?a))"
    using 1 3 by metis
  moreover have "list_all isspace (takeWhile isspace s)"
    by (simp add: list_all_iff) (meson set_takeWhileD)
  moreover have "list_all isspace (rev (takeWhile isspace (rev ?a)))"
    by (simp add: list_all_iff) (meson set_takeWhileD)
  ultimately show ?thesis by blast
qed

text \<open>
  C7. \<open>parse_instruments\<close> splits its input on commas and strips the white space around
  each piece, keeping order and duplicates: on the pieces \<open>toks\<close> joined by commas it gives
  the stripped pieces, one for one. \<open>parse_instruments("A, B ,C")\<close> is \<open>["A","B","C"]\<close>, and
  no piece of any result begins or ends with white space. It is a function of its
  argument alone.
\<close>

theorem parse_instruments_spec:
  assumes "toks \<noteq> []" and "\<forall>t\<in>set toks. 44 \<notin> set t"
  shows "parse_instruments (join [44] toks) = map strip toks \<and>
         parse_instruments (lit ''A, B ,C'') = [lit ''A'', lit ''B'', lit ''C''] \<and>
         (\<forall>r\<in>set (parse_instruments s). r = [] \<or> (\<not> isspace (hd r) \<and> \<not> isspace (last r)))"
proof (intro conjI)
  show "parse_instruments (join [44] toks) = map strip toks"
    using assms by (simp add: parse_instruments_def split_join)
  show "parse_instruments (lit ''A, B ,C'') = [lit ''A'', lit ''B'', lit ''C'']"
    by (simp add: parse_instruments_def split_def lit_def strip_def isspace_def)
  show "\<forall>r\<in>set (parse_instruments s). r = [] \<or> (\<not> isspace (hd r) \<and> \<not> isspace (last r))"
    using strip_no_space_ends by (auto simp: parse_instruments_def)
qed

theorem parse_instruments_spec_witness:
  "parse_instruments (lit ''EQ-i, MBI ,EQ-i'') = [lit ''EQ-i'', lit ''MBI'', lit ''EQ-i'']"
proof -
  have 1: "[lit ''EQ-i'', lit '' MBI '', lit ''EQ-i''] \<noteq> []" by simp
  have 2: "\<forall>t\<in>set [lit ''EQ-i'', lit '' MBI '', lit ''EQ-i'']. 44 \<notin> set t"
    by (simp add: lit_def)
  have "parse_instruments (join [44] [lit ''EQ-i'', lit '' MBI '', lit ''EQ-i'']) =
        map strip [lit ''EQ-i'', lit '' MBI '', lit ''EQ-i'']"
    using parse_instruments_spec [OF 1 2] by blast
  then show ?thesis by (simp add: lit_def strip_def isspace_def)
qed

text \<open>
  C6. For every theme, instrument list, sample size and time of creation, the \<open>phases\<close>
  entry of the configuration that \<open>create_config\<close> returns has exactly the six phase
  identifiers as keys, in the order of \<open>PHASES\<close>, each with the record
  \<open>{"status": "pending"}\<close>.
\<close>

theorem create_config_phases:
  "item (create_config theme instruments sample_size now) (lit ''phases'') =
     Inr (JObj [(lit ''research'', JObj [(lit ''status'', JStr (lit ''pending''))]),
                (lit ''feasibility-research'', JObj [(lit ''status'', JStr (lit ''pending''))]),
                (lit ''simulate'', JObj [(lit ''status'', JStr (lit ''pending''))]),
                (lit ''feasibility-data'', JObj [(lit ''status'', JStr (lit ''pending''))]),
                (lit ''analyze'', JObj [(lit ''status'', JStr (lit ''pending''))]),
                (lit ''write'', JObj [(lit ''status'', JStr (lit ''pending''))])])"
  by (simp add: create_config_def PHASES_def lit_def)

section \<open>Properties of the file system\<close>

lemma stat_Nil [simp]: "stat fs [] = Inr Dir"
  by (simp add: stat.simps)

lemma is_dir_Nil [simp]: "is_dir fs []"
  by (simp add: is_dir_def)

lemma stat_Inr_parent:
  assumes "stat fs p = Inr n" and "p \<noteq> []"
  shows "stat fs (butlast p) = Inr Dir \<and> fs p = Some n"
  using assms by (subst (asm) stat.simps) (auto split: sum.splits node.splits option.splits)

lemma is_dir_parent: "is_dir fs p \<Longrightarrow> is_dir fs (butlast p)"
  by (cases "p = []") (auto simp: is_dir_def dest: stat_Inr_parent)

lemma stat_mono: "stat fs p = Inr n \<Longrightarrow> fs \<subseteq>\<^sub>m fs' \<Longrightarrow> stat fs' p = Inr n"
proof (induction fs p arbitrary: n rule: stat.induct)
  case (1 fs p)
  show ?case
  proof (cases "p = []")
    case True
    with "1.prems" show ?thesis by simp
  next
    case False
    from stat_Inr_parent [OF "1.prems"(1) False]
    have par: "stat fs (butlast p) = Inr Dir" and here: "fs p = Some n" by simp_all
    from "1.IH" [OF False par "1.prems"(2)] have "stat fs' (butlast p) = Inr Dir" .
    moreover from here "1.prems"(2) have "fs' p = Some n"
      by (metis domI map_le_def)
    ultimately show ?thesis using False by (subst stat.simps) simp
  qed
qed

lemma is_dir_mono: "is_dir fs p \<Longrightarrow> fs \<subseteq>\<^sub>m fs' \<Longrightarrow> is_dir fs' p"
  unfolding is_dir_def by (rule stat_mono)

lemma os_mkdir_Inr:
  assumes "os_mkdir fs p = Inr fs'"
  shows "p \<noteq> [] \<and> fs' = fs(p \<mapsto> Dir) \<and> fs p = None \<and> is_dir fs (butlast p)"
  using assms
  by (auto simp: os_mkdir_def is_dir_def split: if_splits sum.splits node.splits option.splits)

lemma os_mkdir_is_dir:
  assumes "os_mkdir fs p = Inr fs'"
  shows "is_dir fs' p" and "fs \<subseteq>\<^sub>m fs'"
proof -
  from os_mkdir_Inr [OF assms]
  have p: "p \<noteq> []" and fs': "fs' = fs(p \<mapsto> Dir)" and free: "fs p = None"
    and par: "is_dir fs (butlast p)" by simp_all
  show le: "fs \<subseteq>\<^sub>m fs'" using fs' free by (auto simp: map_le_def dom_def)
  from is_dir_mono [OF par le] have "stat fs' (butlast p) = Inr Dir" by (simp add: is_dir_def)
  then show "is_dir fs' p" unfolding is_dir_def using p fs' by (subst stat.simps) simp
qed

lemma os_mkdir_of_is_dir: "is_dir fs p \<Longrightarrow> os_mkdir fs p = Inl EEXIST"
proof (cases "p = []")
  case True
  then show ?thesis by (simp add: os_mkdir_def)
next
  case False
  assume "is_dir fs p"
  then have "stat fs p = Inr Dir" by (simp add: is_dir_def)
  from stat_Inr_parent [OF this False] show ?thesis using False by (simp add: os_mkdir_def)
qed

lemma mkdir_of_is_dir: "is_dir fs p \<Longrightarrow> mkdir parents True fs p = (Inr (), fs)"
  by (subst mkdir.simps) (simp add: os_mkdir_of_is_dir)

lemma mkdir_False_fail: "mkdir False exist_ok fs p = (Inl e, fs') \<Longrightarrow> fs' = fs"
  by (subst (asm) mkdir.simps) (auto split: sum.splits if_splits)

text \<open>What a call of mkdir changes: it only adds directories, at prefixes of the path.\<close>

lemma mkdir_frame:
  "mkdir parents exist_ok fs p = (r, fs') \<Longrightarrow>
     fs \<subseteq>\<^sub>m fs' \<and> (\<forall>q. fs' q \<noteq> fs q \<longrightarrow> fs' q = Some Dir \<and> (\<exists>s. p = q @ s))"
proof (induction parents exist_ok fs p arbitrary: r fs' rule: mkdir.induct)
  case (1 parents exist_ok fs p)
  show ?case
  proof (cases "os_mkdir fs p")
    case (Inr fs1)
    with "1.prems" have eq: "fs' = fs1" by (subst (asm) mkdir.simps) simp
    from os_mkdir_Inr [OF Inr] eq have upd: "fs' = fs(p \<mapsto> Dir)" by simp
    from os_mkdir_is_dir(2) [OF Inr] eq have "fs \<subseteq>\<^sub>m fs'" by simp
    moreover have "\<forall>q. fs' q \<noteq> fs q \<longrightarrow> fs' q = Some Dir \<and> (\<exists>s. p = q @ s)"
      unfolding upd by (auto split: if_splits)
    ultimately show ?thesis by simp
  next
    case (Inl e)
    show ?thesis
    proof (cases "e = ENOENT \<and> parents \<and> p \<noteq> []")
      case False
      with Inl "1.prems" have "fs' = fs"
        by (subst (asm) mkdir.simps) (auto split: if_splits)
      then show ?thesis by simp
    next
      case True
      obtain r1 fs1 where par: "mkdir True True fs (butlast p) = (r1, fs1)" by (cases "mkdir True True fs (butlast p)")
      from True have c: "e = ENOENT" "\<not> (\<not> parents \<or> p = [])" by simp_all
      from "1.IH"(1) [OF Inl c par]
      have f1: "fs \<subseteq>\<^sub>m fs1"
        and g1: "\<forall>q. fs1 q \<noteq> fs q \<longrightarrow> fs1 q = Some Dir \<and> (\<exists>s. butlast p = q @ s)" by simp_all
      have pre: "\<exists>s'. p = q @ s'" if "butlast p = q @ s" for q s
      proof -
        from True have "butlast p @ [last p] = p" by simp
        then have "q @ (s @ [last p]) = p" unfolding that by simp
        then show ?thesis by (intro exI [of _ "s @ [last p]"]) simp
      qed
      show ?thesis
      proof (cases r1)
        case (Inl e1)
        with par Inl True \<open>os_mkdir fs p = Inl e\<close> "1.prems" have "fs' = fs1"
          by (subst (asm) mkdir.simps) simp
        with f1 g1 pre show ?thesis by auto
      next
        case (Inr u)
        with par \<open>os_mkdir fs p = Inl e\<close> True "1.prems"
        have again: "mkdir False exist_ok fs1 p = (r, fs')"
          by (subst (asm) mkdir.simps) simp
        from par Inr have par': "mkdir True True fs (butlast p) = (Inr u, fs1)" by simp
        from "1.IH"(2) [OF \<open>os_mkdir fs p = Inl e\<close> c par' [symmetric] refl again]
        have f2: "fs1 \<subseteq>\<^sub>m fs'"
          and g2: "\<forall>q. fs' q \<noteq> fs1 q \<longrightarrow> fs' q = Some Dir \<and> (\<exists>s. p = q @ s)" by simp_all
        from f1 f2 have "fs \<subseteq>\<^sub>m fs'" by (rule map_le_trans)
        moreover have "\<forall>q. fs' q \<noteq> fs q \<longrightarrow> fs' q = Some Dir \<and> (\<exists>s. p = q @ s)"
        proof (intro allI impI)
          fix q assume d: "fs' q \<noteq> fs q"
          show "fs' q = Some Dir \<and> (\<exists>s. p = q @ s)"
          proof (cases "fs' q = fs1 q")
            case False
            with g2 show ?thesis by blast
          next
            case True
            with d have "fs1 q \<noteq> fs q" by simp
            with g1 obtain s where "fs1 q = Some Dir" and "butlast p = q @ s" by blast
            with pre [of q s] True show ?thesis by simp
          qed
        qed
        ultimately show ?thesis by blast
      qed
    qed
  qed
qed

lemma mkdir_success_is_dir:
  "mkdir parents exist_ok fs p = (Inr u, fs') \<Longrightarrow> is_dir fs' p"
proof (induction parents exist_ok fs p arbitrary: fs' rule: mkdir.induct)
  case (1 parents exist_ok fs p)
  show ?case
  proof (cases "os_mkdir fs p")
    case (Inr fs1)
    with "1.prems" have "fs' = fs1" by (subst (asm) mkdir.simps) simp
    with os_mkdir_is_dir(1) [OF Inr] show ?thesis by simp
  next
    case (Inl e)
    show ?thesis
    proof (cases "e = ENOENT")
      case False
      with Inl "1.prems" show ?thesis
        by (subst (asm) mkdir.simps) (auto split: if_splits)
    next
      case True
      with Inl "1.prems" have c: "\<not> (\<not> parents \<or> p = [])"
        by (subst (asm) mkdir.simps) (auto split: if_splits)
      obtain r1 fs1 where par: "mkdir True True fs (butlast p) = (r1, fs1)"
        by (cases "mkdir True True fs (butlast p)")
      with Inl True c "1.prems" obtain u1 where r1: "r1 = Inr u1"
        and again: "mkdir False exist_ok fs1 p = (Inr u, fs')"
        by (subst (asm) mkdir.simps) (cases r1; simp)
      from par r1 have par': "(Inr u1, fs1) = mkdir True True fs (butlast p)" by simp
      from "1.IH"(2) [OF Inl True c par' refl again] show ?thesis .
    qed
  qed
qed

lemma mkdir_failure_again:
  "mkdir parents exist_ok fs p = (Inl x, fs') \<Longrightarrow> \<exists>x'. mkdir parents exist_ok fs' p = (Inl x', fs')"
proof (induction parents exist_ok fs p arbitrary: x fs' rule: mkdir.induct)
  case (1 parents exist_ok fs p)
  show ?case
  proof (cases "os_mkdir fs p")
    case (Inr fs1)
    with "1.prems" show ?thesis by (subst (asm) mkdir.simps) simp
  next
    case (Inl e)
    show ?thesis
    proof (cases "e = ENOENT \<and> parents \<and> p \<noteq> []")
      case False
      with Inl "1.prems" have same: "fs' = fs"
        by (subst (asm) mkdir.simps) (auto split: if_splits)
      with "1.prems" show ?thesis by auto
    next
      case True
      then have c: "e = ENOENT" "\<not> (\<not> parents \<or> p = [])" and par_t: "parents" by simp_all
      obtain r1 fs1 where par: "mkdir True True fs (butlast p) = (r1, fs1)"
        by (cases "mkdir True True fs (butlast p)")
      show ?thesis
      proof (cases r1)
        case r1: (Inl e1)
        from "1.prems" par Inl True r1 have eq: "fs' = fs1"
          by (subst (asm) mkdir.simps) simp
        from "1.IH"(1) [OF Inl c] par r1 obtain e2
          where again: "mkdir True True fs1 (butlast p) = (Inl e2, fs1)" by blast
        have nd: "\<not> is_dir fs1 (butlast p)"
        proof
          assume "is_dir fs1 (butlast p)"
          from mkdir_of_is_dir [OF this, of True] again show False by simp
        qed
        show ?thesis
        proof (cases "os_mkdir fs1 p")
          case (Inr fs2)
          from os_mkdir_Inr [OF this] nd show ?thesis by simp
        next
          case e': (Inl e')
          show ?thesis
          proof (cases "e' = ENOENT")
            case True
            with e' again c par_t eq show ?thesis by (subst mkdir.simps) simp
          next
            case False
            from nd is_dir_parent have "\<not> is_dir fs1 p" by blast
            with False e' eq show ?thesis by (subst mkdir.simps) simp
          qed
        qed
      next
        case r1: (Inr u1)
        from "1.prems" par Inl True r1 have again: "mkdir False exist_ok fs1 p = (Inl x, fs')"
          by (subst (asm) mkdir.simps) simp
        from mkdir_False_fail [OF again] have eq: "fs' = fs1" .
        from par r1 have "is_dir fs1 (butlast p)" by (simp add: mkdir_success_is_dir)
        then have up: "mkdir True True fs1 (butlast p) = (Inr (), fs1)" by (rule mkdir_of_is_dir)
        from again eq have nr: "os_mkdir fs1 p \<noteq> Inr fs2" for fs2
          by (subst (asm) mkdir.simps) (auto split: sum.splits)
        then obtain e' where e': "os_mkdir fs1 p = Inl e'" by (cases "os_mkdir fs1 p") auto
        show ?thesis
        proof (cases "e' = ENOENT")
          case True
          with e' up c again eq show ?thesis by (subst mkdir.simps) simp
        next
          case False
          from again e' False eq show ?thesis
            by (subst mkdir.simps, subst (asm) mkdir.simps) (auto split: if_splits)
        qed
      qed
    qed
  qed
qed

lemma mkdir_each_frame:
  "mkdir_each fs ps = (r, fs') \<Longrightarrow>
     fs \<subseteq>\<^sub>m fs' \<and> (\<forall>q. fs' q \<noteq> fs q \<longrightarrow> fs' q = Some Dir \<and> (\<exists>p\<in>set ps. \<exists>s. p = q @ s))"
proof (induction ps arbitrary: fs r fs')
  case Nil
  then show ?case by simp
next
  case (Cons p ps)
  obtain r1 fs1 where one: "mkdir True True fs p = (r1, fs1)" by (cases "mkdir True True fs p")
  from mkdir_frame [OF one]
  have f1: "fs \<subseteq>\<^sub>m fs1" and g1: "\<forall>q. fs1 q \<noteq> fs q \<longrightarrow> fs1 q = Some Dir \<and> (\<exists>s. p = q @ s)"
    by simp_all
  show ?case
  proof (cases r1)
    case (Inl e)
    with one Cons.prems have "fs' = fs1" by simp
    with f1 g1 show ?thesis by auto
  next
    case (Inr u)
    with one Cons.prems have rest: "mkdir_each fs1 ps = (r, fs')" by simp
    from Cons.IH [OF rest]
    have f2: "fs1 \<subseteq>\<^sub>m fs'"
      and g2: "\<forall>q. fs' q \<noteq> fs1 q \<longrightarrow> fs' q = Some Dir \<and> (\<exists>p\<in>set ps. \<exists>s. p = q @ s)"
      by simp_all
    from f1 f2 have "fs \<subseteq>\<^sub>m fs'" by (rule map_le_trans)
    moreover have "fs' q = Some Dir \<and> (\<exists>p'\<in>set (p # ps). \<exists>s. p' = q @ s)" if d: "fs' q \<noteq> fs q" for q
    proof (cases "fs' q = fs1 q")
      case False
      with g2 show ?thesis by auto
    next
      case True
      with d have "fs1 q \<noteq> fs q" by simp
      with g1 True show ?thesis by auto
    qed
    ultimately show ?thesis by blast
  qed
qed

lemma mkdir_each_success:
  "mkdir_each fs ps = (Inr u, fs') \<Longrightarrow> \<forall>p\<in>set ps. is_dir fs' p"
proof (induction ps arbitrary: fs)
  case Nil
  then show ?case by simp
next
  case (Cons p ps)
  obtain r1 fs1 where one: "mkdir True True fs p = (r1, fs1)" by (cases "mkdir True True fs p")
  with Cons.prems obtain u1 where r1: "r1 = Inr u1" and rest: "mkdir_each fs1 ps = (Inr u, fs')"
    by (cases r1) simp_all
  from one r1 have "is_dir fs1 p" by (simp add: mkdir_success_is_dir)
  moreover from mkdir_each_frame [OF rest] have "fs1 \<subseteq>\<^sub>m fs'" by simp
  ultimately have "is_dir fs' p" by (rule is_dir_mono)
  with Cons.IH [OF rest] show ?case by simp
qed

lemma mkdir_each_of_is_dir: "\<forall>p\<in>set ps. is_dir fs p \<Longrightarrow> mkdir_each fs ps = (Inr (), fs)"
  by (induction ps) (simp_all add: mkdir_of_is_dir)

lemma mkdir_each_failure_again:
  "mkdir_each fs ps = (Inl x, fs') \<Longrightarrow> \<exists>x'. mkdir_each fs' ps = (Inl x', fs')"
proof (induction ps arbitrary: fs)
  case Nil
  then show ?case by simp
next
  case (Cons p ps)
  obtain r1 fs1 where one: "mkdir True True fs p = (r1, fs1)" by (cases "mkdir True True fs p")
  show ?case
  proof (cases r1)
    case (Inl e)
    with one Cons.prems have "mkdir True True fs p = (Inl x, fs')" by simp
    from mkdir_failure_again [OF this] show ?thesis by auto
  next
    case (Inr u)
    with one Cons.prems have rest: "mkdir_each fs1 ps = (Inl x, fs')" by simp
    from one Inr have "is_dir fs1 p" by (simp add: mkdir_success_is_dir)
    moreover from mkdir_each_frame [OF rest] have "fs1 \<subseteq>\<^sub>m fs'" by simp
    ultimately have "is_dir fs' p" by (rule is_dir_mono)
    then have "mkdir True True fs' p = (Inr (), fs')" by (rule mkdir_of_is_dir)
    with Cons.IH [OF rest] show ?thesis by auto
  qed
qed

lemma setup_directories_again:
  assumes "setup_directories fs = (r, fs')"
  shows "\<exists>r'. setup_directories fs' = (r', fs') \<and> (isl r' \<longleftrightarrow> isl r)"
proof -
  obtain r1 fs1 where each: "mkdir_each fs output_subdirs = (r1, fs1)"
    by (cases "mkdir_each fs output_subdirs")
  show ?thesis
  proof (cases r1)
    case (Inl e)
    with each assms have eq: "fs' = fs1" "r = Inl e" by (simp_all add: setup_directories_def)
    from each Inl eq obtain e' where "mkdir_each fs' output_subdirs = (Inl e', fs')"
      using mkdir_each_failure_again by blast
    with eq show ?thesis by (simp add: setup_directories_def)
  next
    case (Inr u)
    with each assms have inp: "mkdir False True fs1 INPUTS_DIR = (r, fs')"
      by (simp add: setup_directories_def)
    from mkdir_frame [OF inp] have le: "fs1 \<subseteq>\<^sub>m fs'" by simp
    from each Inr have "\<forall>p\<in>set output_subdirs. is_dir fs1 p" by (simp add: mkdir_each_success)
    with le have "\<forall>p\<in>set output_subdirs. is_dir fs' p" by (blast intro: is_dir_mono)
    then have each': "mkdir_each fs' output_subdirs = (Inr (), fs')" by (rule mkdir_each_of_is_dir)
    show ?thesis
    proof (cases r)
      case r: (Inl e)
      with inp have "\<exists>e'. mkdir False True fs' INPUTS_DIR = (Inl e', fs')"
        by (simp add: mkdir_failure_again)
      with each' r show ?thesis by (auto simp: setup_directories_def)
    next
      case r: (Inr u')
      with inp have "is_dir fs' INPUTS_DIR" by (simp add: mkdir_success_is_dir)
      then have "mkdir False True fs' INPUTS_DIR = (Inr (), fs')" by (rule mkdir_of_is_dir)
      with each' r show ?thesis by (simp add: setup_directories_def)
    qed
  qed
qed

lemma setup_directories_of_is_dir:
  assumes "\<forall>p\<in>set output_subdirs. is_dir fs p" and "is_dir fs INPUTS_DIR"
  shows "setup_directories fs = (Inr (), fs)"
  using assms by (simp add: setup_directories_def mkdir_each_of_is_dir mkdir_of_is_dir)

lemma setup_directories_success:
  assumes "setup_directories fs = (Inr u, fs')"
  shows "(\<forall>p\<in>set output_subdirs. is_dir fs' p) \<and> is_dir fs' INPUTS_DIR \<and> fs \<subseteq>\<^sub>m fs'"
proof -
  obtain r1 fs1 where each: "mkdir_each fs output_subdirs = (r1, fs1)"
    by (cases "mkdir_each fs output_subdirs")
  with assms obtain u1 where r1: "r1 = Inr u1" and inp: "mkdir False True fs1 INPUTS_DIR = (Inr u, fs')"
    by (cases r1) (simp_all add: setup_directories_def)
  from mkdir_frame [OF inp] have le: "fs1 \<subseteq>\<^sub>m fs'" by simp
  from each r1 have "\<forall>p\<in>set output_subdirs. is_dir fs1 p" by (simp add: mkdir_each_success)
  with le have "\<forall>p\<in>set output_subdirs. is_dir fs' p" by (blast intro: is_dir_mono)
  moreover from inp have "is_dir fs' INPUTS_DIR" by (rule mkdir_success_is_dir)
  moreover from mkdir_each_frame [OF each] le have "fs \<subseteq>\<^sub>m fs'" by (blast intro: map_le_trans)
  ultimately show ?thesis by simp
qed

section \<open>Properties of the configuration path\<close>

lemma output_subdirs_eq:
  "output_subdirs =
     [[lit ''outputs'', lit ''research''], [lit ''outputs'', lit ''feasibility''],
      [lit ''outputs'', lit ''data''], [lit ''outputs'', lit ''analysis''],
      [lit ''outputs'', lit ''thesis'', lit ''chapters'']]"
  by (simp add: output_subdirs_def OUTPUTS_DIR_def split_def lit_def)

lemma setup_directories_config_path:
  assumes "setup_directories fs = (r, fs')"
  shows "fs' config_path = fs config_path"
proof -
  obtain r1 fs1 where each: "mkdir_each fs output_subdirs = (r1, fs1)"
    by (cases "mkdir_each fs output_subdirs")
  have no: "\<not> (\<exists>p\<in>set output_subdirs. \<exists>s. p = config_path @ s)"
    by (simp add: output_subdirs_eq config_path_def INPUTS_DIR_def lit_def)
  from mkdir_each_frame [OF each] no have 1: "fs1 config_path = fs config_path" by blast
  show ?thesis
  proof (cases r1)
    case (Inl e)
    with each assms 1 show ?thesis by (simp add: setup_directories_def)
  next
    case (Inr u)
    with each assms have inp: "mkdir False True fs1 INPUTS_DIR = (r, fs')"
      by (simp add: setup_directories_def)
    have "\<not> (\<exists>s. INPUTS_DIR = config_path @ s)" by (simp add: config_path_def)
    with mkdir_frame [OF inp] have "fs' config_path = fs1 config_path" by blast
    with 1 show ?thesis by simp
  qed
qed

lemma not_exists: "fs p = None \<Longrightarrow> p \<noteq> [] \<Longrightarrow> \<not> exists fs p"
  by (subst exists_def, subst stat.simps) (simp split: sum.splits node.splits)

lemma config_path_parent [simp]: "butlast config_path = INPUTS_DIR" "config_path \<noteq> []"
  by (simp_all add: config_path_def)

lemma load_config_missing:
  "fs config_path = None \<Longrightarrow>
   load_config env fs =
     Inl (FileNotFoundError (lit ''No configuration found at '' @ path_text env config_path @
                             lit ''. Run with --theme and --instruments first.''))"
  by (simp add: load_config_def not_exists)

lemma load_config_present:
  assumes "is_dir fs INPUTS_DIR" and "fs config_path = Some (File text)"
  shows "load_config env fs = json_loads text"
proof -
  from assms have "stat fs config_path = Inr (File text)"
    by (subst stat.simps) (simp add: is_dir_def)
  then show ?thesis by (simp add: load_config_def exists_def open_read_def)
qed

lemma map_of_instructions_None: "p \<notin> set PHASES \<Longrightarrow> map_of instructions p = None"
  by (simp add: instructions_def PHASES_def)

lemma map_of_instructions_Some: "p \<in> set PHASES \<Longrightarrow> \<exists>text. map_of instructions p = Some text"
  by (auto simp: instructions_def PHASES_def)

lemma PHASES_nonempty: "p \<in> set PHASES \<Longrightarrow> p \<noteq> []"
  by (auto simp: PHASES_def lit_def)

section \<open>Properties of the command line\<close>

lemma reset_updates [simp]:
  "reset (a\<lparr>arg_theme := t\<rparr>) = reset a"
  "reset (a\<lparr>arg_instruments := i\<rparr>) = reset a"
  "reset (a\<lparr>arg_sample := n\<rparr>) = (reset a)\<lparr>arg_sample := n\<rparr>"
  "reset (a\<lparr>arg_phase := p\<rparr>) = (reset a)\<lparr>arg_phase := p\<rparr>"
  "reset (a\<lparr>arg_full := b\<rparr>) = (reset a)\<lparr>arg_full := b\<rparr>"
  "reset (a\<lparr>arg_status := b\<rparr>) = (reset a)\<lparr>arg_status := b\<rparr>"
  "reset (a\<lparr>arg_config := c\<rparr>) = (reset a)\<lparr>arg_config := c\<rparr>"
  by (simp_all add: reset_def)

lemma parse_flags_without:
  "parse_flags env extras (reset a) (without_theme_instruments argv) =
     (case parse_flags env extras a argv of
        Parsed b \<Rightarrow> Parsed (reset b)
      | Usage_error \<Rightarrow> Usage_error
      | Help_exit \<Rightarrow> Help_exit)"
proof (induction env extras a argv rule: parse_flags.induct)
  case (4 env extras a s fl)
  then show ?case
    by (cases "to_int env s") (simp_all add: without_theme_instruments_def)
qed (simp_all add: without_theme_instruments_def)

lemma handle_configuration_reset:
  "\<not> (given (arg_theme a) \<and> given (arg_instruments a)) \<Longrightarrow>
   handle_configuration env (reset a) now w = handle_configuration env a now w"
  by (auto simp: handle_configuration_def reset_def split: sum.splits exn.splits)

lemma execute_action_reset: "execute_action env (reset a) config w = execute_action env a config w"
  by (simp add: execute_action_def reset_def)

lemma main_without:
  assumes "parse_args env argv = Parsed a"
    and "\<not> (given (arg_theme a) \<and> given (arg_instruments a))"
  shows "main env (without_theme_instruments argv) now w = main env argv now w"
proof -
  have "reset default_args = default_args" by (simp add: reset_def default_args_def)
  with parse_flags_without [of env False default_args argv] assms(1)
  have "parse_args env (without_theme_instruments argv) = Parsed (reset a)"
    by (simp add: parse_args_def)
  with assms show ?thesis
    by (simp add: main_def handle_configuration_reset execute_action_reset
             split: prod.splits sum.splits)
qed

lemma handle_configuration_no_write:
  assumes "\<not> (given (arg_theme a) \<and> given (arg_instruments a))"
    and "handle_configuration env a now w = (r, w')"
  shows "files w' = files w"
  using assms
  by (auto simp: handle_configuration_def print_def split: if_splits sum.splits exn.splits)

lemma print_lines_files: "print_lines ls w = (r, w') \<Longrightarrow> files w' = files w"
  by (induction ls w rule: print_lines.induct) (auto simp: print_def)

lemma phase_commands_files [simp]: "files (phase_commands w) = files w"
proof -
  have "files (foldl (\<lambda>w'' phase. print (lit ''  python run.py --phase '' @ phase) w'') v ps) = files v"
    for v ps
    by (induction ps arbitrary: v) (simp_all add: print_def)
  then show ?thesis by (simp add: phase_commands_def print_def)
qed

lemma execute_action_files:
  assumes "execute_action env a config w = (x, w')"
  shows "files w' = files w"
proof -
  have fold: "foldl (\<lambda>w'' phase. print (lit ''  python run.py --phase '' @ phase) w'')
                (print (10 # lit ''To execute a phase, run:'') v) PHASES = phase_commands v" for v
    by (simp add: phase_commands_def)
  from assms show ?thesis
    unfolding execute_action_def fold
    by (auto simp: print_def print_phase_instructions_def print_full_workflow_def
             dest: print_lines_files split: if_splits prod.splits sum.splits)
qed

section \<open>Lemmas on runs of the program\<close>

lemma main_parsed:
  assumes "parse_args env argv = Parsed a" and "setup_directories (files w) = (Inr (), fs')"
  shows "main env argv now w =
           (case handle_configuration env a now (w\<lparr>files := fs'\<rparr>) of
              (Inl x, w') \<Rightarrow> (x, w')
            | (Inr config, w') \<Rightarrow> execute_action env a config w')"
  using assms by (simp add: main_def)

lemma error_prefix:
  "lit ''Error: '' @ lit ''No configuration found at '' @ s = lit ''Error: No configuration found at '' @ s"
  by (simp add: lit_def)

lemma main_no_configuration:
  assumes "parse_args env argv = Parsed a"
    and "\<not> (given (arg_theme a) \<and> given (arg_instruments a))" and "\<not> given (arg_config a)"
    and "files w config_path = None"
    and "setup_directories (files w) = (Inr (), fs')"
  shows "main env argv now w =
           (if arg_status a
            then (Exit 0,
                  print (lit ''No configuration found. Initialize with --theme and --instruments.'')
                    (w\<lparr>files := fs'\<rparr>))
            else (Exit 1, missing_configuration_report env (w\<lparr>files := fs'\<rparr>)))"
proof -
  from setup_directories_config_path [OF assms(5)] assms(4) have "fs' config_path = None" by simp
  then have load: "load_config env fs' =
      Inl (FileNotFoundError (lit ''No configuration found at '' @ path_text env config_path @
                              lit ''. Run with --theme and --instruments first.''))"
    by (rule load_config_missing)
  have "handle_configuration env a now (w\<lparr>files := fs'\<rparr>) =
          (if arg_status a then (Inr JNull, w\<lparr>files := fs'\<rparr>)
           else (Inl (Exit 1), missing_configuration_report env (w\<lparr>files := fs'\<rparr>)))"
    using assms(2,3) load
    by (auto simp: handle_configuration_def missing_configuration_report_def error_prefix)
  then show ?thesis
    using main_parsed [OF assms(1,5)] by (simp add: execute_action_def)
qed

lemma main_loaded:
  assumes "parse_args env argv = Parsed a"
    and "\<not> (given (arg_theme a) \<and> given (arg_instruments a))" and "\<not> given (arg_config a)"
    and "files w config_path = Some (File text)" and "json_loads text = Inr config"
    and "setup_directories (files w) = (Inr (), fs')"
  shows "main env argv now w = execute_action env a config (w\<lparr>files := fs'\<rparr>)"
proof -
  from setup_directories_config_path [OF assms(6)] assms(4)
  have "fs' config_path = Some (File text)" by simp
  moreover from setup_directories_success [OF assms(6)] have "is_dir fs' INPUTS_DIR" by simp
  ultimately have "load_config env fs' = Inr config"
    using assms(5) by (simp add: load_config_present)
  then have "handle_configuration env a now (w\<lparr>files := fs'\<rparr>) = (Inr config, w\<lparr>files := fs'\<rparr>)"
    using assms(2,3) by (auto simp: handle_configuration_def)
  then show ?thesis using main_parsed [OF assms(1,6)] by simp
qed

lemma parse_args_Nil [simp]: "parse_args env [] = Parsed default_args"
  by (simp add: parse_args_def)

lemma default_args_sel [simp]:
  "arg_theme default_args = None" "arg_instruments default_args = None"
  "arg_sample default_args = 50" "arg_phase default_args = None"
  "\<not> arg_full default_args" "\<not> arg_status default_args" "arg_config default_args = None"
  by (simp_all add: default_args_def)

lemma execute_action_overview:
  assumes "\<not> arg_status a" and "\<not> given (arg_phase a)" and "arg_full a \<or> truthy config"
  shows "execute_action env a config w =
           (case print_full_workflow config w of
              (Inl e, w') \<Rightarrow> (Uncaught e, w')
            | (Inr u, w') \<Rightarrow> (Exit 0, phase_commands w'))"
  using assms by (auto simp: execute_action_def phase_commands_def split: prod.splits sum.splits)

lemma execute_action_help:
  assumes "\<not> arg_status a" and "\<not> given (arg_phase a)" and "\<not> arg_full a" and "\<not> truthy config"
  shows "execute_action env a config w = (Exit 0, w\<lparr>stdout := stdout w @ help_text env\<rparr>)"
  using assms by (simp add: execute_action_def)

lemma execute_action_phase:
  assumes "\<not> arg_status a" and "arg_phase a = Some p" and "p \<noteq> []"
  shows "execute_action env a config w = (Exit 0, print_phase_instructions p w)"
  using assms by (simp add: execute_action_def)

lemma parse_args_Phase:
  "p \<in> set PHASES \<Longrightarrow> parse_args env [Phase p] = Parsed (default_args\<lparr>arg_phase := Some p\<rparr>)"
  by (simp add: parse_args_def)

lemma parse_args_bad_Phase: "p \<notin> set PHASES \<Longrightarrow> parse_args env (Phase p # rest) = Usage_error"
  by (simp add: parse_args_def)

text \<open>The empty state, evaluated.\<close>

lemma setup_fresh:
  "setup_directories (files fresh) = (Inr (), snd (setup_directories (files fresh)))"
proof -
  have "fst (setup_directories (files fresh)) = Inr ()"
    by (simp add: fresh_def setup_directories_def output_subdirs_eq INPUTS_DIR_def lit_def
          mkdir.simps os_mkdir_def stat.simps is_dir_def)
  then show ?thesis by (metis prod.collapse)
qed

lemma fresh_no_config [simp]: "files fresh config_path = None"
  by (simp add: fresh_def)

lemma main_saves:
  assumes "parse_args env argv = Parsed a" and "setup_directories (files w) = (Inr (), fs')"
    and "given (arg_theme a) \<and> given (arg_instruments a)" and "files w config_path \<noteq> Some Dir"
  shows "files (snd (main env argv now w)) config_path =
           Some (File (json_dumps (create_config (the_str (arg_theme a))
                                     (parse_instruments (the_str (arg_instruments a)))
                                     (arg_sample a) now)))"
proof -
  let ?config = "create_config (the_str (arg_theme a))
                   (parse_instruments (the_str (arg_instruments a))) (arg_sample a) now"
  let ?fs = "fs'(config_path \<mapsto> File (json_dumps ?config))"
  let ?w = "print (lit ''Configuration saved to '' @ path_text env config_path) (w\<lparr>files := ?fs\<rparr>)"
  from setup_directories_config_path [OF assms(2)] assms(4)
  have nd: "fs' config_path \<noteq> Some Dir" by simp
  from setup_directories_success [OF assms(2)] have "stat fs' INPUTS_DIR = Inr Dir"
    by (simp add: is_dir_def)
  with nd have "open_write env fs' config_path (json_dumps ?config) = Inr ?fs"
    by (auto simp: open_write_def split: option.splits node.splits)
  then have "save_config env ?config (w\<lparr>files := fs'\<rparr>) = (Inr (), ?w)"
    by (simp add: save_config_def)
  with assms(3) have "handle_configuration env a now (w\<lparr>files := fs'\<rparr>) = (Inr ?config, ?w)"
    by (simp add: handle_configuration_def Let_def)
  with main_parsed [OF assms(1,2)]
  have m: "main env argv now w = execute_action env a ?config ?w" by simp
  obtain x w' where e: "execute_action env a ?config ?w = (x, w')"
    by (cases "execute_action env a ?config ?w")
  from execute_action_files [OF e] have "files w' = ?fs" by (simp add: print_def)
  with m e show ?thesis by simp
qed

lemma main_keeps_config_file:
  assumes "parse_args env argv = Parsed a"
    and "\<not> (given (arg_theme a) \<and> given (arg_instruments a))"
  shows "files (snd (main env argv now w)) config_path = files w config_path"
proof -
  obtain r fs' where s: "setup_directories (files w) = (r, fs')"
    by (cases "setup_directories (files w)")
  note frame = setup_directories_config_path [OF s]
  show ?thesis
  proof (cases r)
    case (Inl e)
    with s assms(1) frame show ?thesis by (simp add: main_def)
  next
    case (Inr u)
    obtain h w1 where h: "handle_configuration env a now (w\<lparr>files := fs'\<rparr>) = (h, w1)"
      by (cases "handle_configuration env a now (w\<lparr>files := fs'\<rparr>)")
    from handle_configuration_no_write [OF assms(2) h] have f1: "files w1 = fs'" by simp
    show ?thesis
    proof (cases h)
      case (Inl x)
      with s Inr h assms(1) f1 frame show ?thesis by (simp add: main_def)
    next
      case c: (Inr config)
      obtain x w2 where e: "execute_action env a config w1 = (x, w2)"
        by (cases "execute_action env a config w1")
      from execute_action_files [OF e] f1 have "files w2 = fs'" by simp
      with s Inr h c e assms(1) frame show ?thesis by (simp add: main_def)
    qed
  qed
qed

lemma handle_configuration_fallback:
  assumes "\<not> (given (arg_theme a) \<and> given (arg_instruments a))"
  shows "handle_configuration env a now w =
           (if given (arg_config a) then
              (case open_read env (files w) (resolve env (the_str (arg_config a))) of
                 Inl e \<Rightarrow> (Inl (Uncaught e), w)
               | Inr text \<Rightarrow>
                   (case json_loads text of
                      Inl e \<Rightarrow> (Inl (Uncaught e), w)
                    | Inr config \<Rightarrow> (Inr config, w)))
            else
              (case load_config env (files w) of
                 Inr config \<Rightarrow> (Inr config, w)
               | Inl (FileNotFoundError msg) \<Rightarrow>
                   if \<not> arg_status a
                   then (Inl (Exit 1),
                         print (lit ''  python run.py --theme '' @ [34] @ lit ''Your Theme'' @ [34] @
                                lit '' --instruments '' @ [34] @ lit ''SCALE1,SCALE2'' @ [34])
                           (print (10 # lit ''Run with --theme and --instruments to initialize:'')
                              (print (lit ''Error: '' @ msg) w)))
                   else (Inr JNull, w)
               | Inl e \<Rightarrow> (Inl (Uncaught e), w)))"
  using assms by (auto simp: handle_configuration_def)

section \<open>Runs of the program\<close>

text \<open>
  C2 (as amended). An identifier outside the six phases never reaches
  \<open>print_phase_instructions\<close> from the command line: \<open>--phase\<close> is declared with
  \<open>choices=PHASES\<close>, so the run ends in the argument parser with exit status 2, nothing
  on standard output and nothing touched. \<open>print_phase_instructions\<close> itself, called
  with such an identifier, prints \<open>Unknown phase:\<close> and the identifier.
\<close>

theorem unknown_phase_rejected:
  assumes "p \<notin> set PHASES"
  shows "main env (Phase p # rest) now w = (Exit 2, w) \<and>
         print_phase_instructions p w = print (lit ''Unknown phase: '' @ p) w"
  using assms
  by (simp add: main_def parse_args_bad_Phase print_phase_instructions_def map_of_instructions_None)

theorem unknown_phase_rejected_witness:
  "lit ''bogus'' \<notin> set PHASES \<and>
   main example_env [Phase (lit ''bogus''), Status] [] fresh = (Exit 2, fresh) \<and>
   stdout (print_phase_instructions (lit ''bogus'') fresh) = lit ''Unknown phase: bogus'' @ [10]"
proof -
  have 1: "lit ''bogus'' \<notin> set PHASES" by (simp add: PHASES_def lit_def)
  from unknown_phase_rejected [OF 1, of example_env "[Status]" "[]" fresh] 1
  show ?thesis by (simp add: print_def fresh_def lit_def)
qed

text \<open>
  The claim as stated fails: \<open>--phase bogus\<close> ends with status 2 and prints nothing on
  standard output.
\<close>

theorem unknown_phase_counterexample:
  "exit_status (fst (main example_env [Phase (lit ''bogus'')] [] fresh)) = 2 \<and>
   stdout (snd (main example_env [Phase (lit ''bogus'')] [] fresh)) = []"
proof -
  have "lit ''bogus'' \<notin> set PHASES" by (simp add: PHASES_def lit_def)
  then have "main example_env [Phase (lit ''bogus'')] [] fresh = (Exit 2, fresh)"
    by (simp add: main_def parse_args_bad_Phase)
  then show ?thesis by (simp add: fresh_def)
qed

text \<open>
  C5. When nothing is stored at the configuration path and the command line gives
  neither both of \<open>--theme\<close> and \<open>--instruments\<close> nor \<open>--config\<close> (as non-empty strings),
  a run whose directory bootstrap succeeds ends as follows: with \<open>--status\<close> it prints
  \<open>No configuration found. Initialize with --theme and --instruments.\<close> and exits with
  status 0; otherwise it prints the error message with the configuration path and the
  hint, and exits with status 1.
\<close>

theorem missing_configuration:
  assumes "parse_args env argv = Parsed a"
    and "\<not> (given (arg_theme a) \<and> given (arg_instruments a))" and "\<not> given (arg_config a)"
    and "files w config_path = None"
    and "setup_directories (files w) = (Inr (), fs')"
  shows "main env argv now w =
           (if arg_status a
            then (Exit 0,
                  print (lit ''No configuration found. Initialize with --theme and --instruments.'')
                    (w\<lparr>files := fs'\<rparr>))
            else (Exit 1, missing_configuration_report env (w\<lparr>files := fs'\<rparr>)))"
  using assms by (rule main_no_configuration)

theorem missing_configuration_witness:
  "parse_args example_env [Status] = Parsed (default_args\<lparr>arg_status := True\<rparr>) \<and>
   files fresh config_path = None \<and>
   fst (setup_directories (files fresh)) = Inr () \<and>
   fst (main example_env [Status] [] fresh) = Exit 0 \<and>
   stdout (snd (main example_env [Status] [] fresh)) =
     lit ''No configuration found. Initialize with --theme and --instruments.'' @ [10] \<and>
   fst (main example_env [Full] [] fresh) = Exit 1"
proof -
  have p1: "parse_args example_env [Status] = Parsed (default_args\<lparr>arg_status := True\<rparr>)"
    by (simp add: parse_args_def)
  have p2: "parse_args example_env [Full] = Parsed (default_args\<lparr>arg_full := True\<rparr>)"
    by (simp add: parse_args_def)
  from setup_fresh have s: "fst (setup_directories (files fresh)) = Inr ()" by (metis fst_conv)
  from missing_configuration [OF p1 _ _ fresh_no_config setup_fresh, of "[]"]
  have 1: "main example_env [Status] [] fresh =
      (Exit 0, print (lit ''No configuration found. Initialize with --theme and --instruments.'')
                 (fresh\<lparr>files := snd (setup_directories (files fresh))\<rparr>))"
    by simp
  from missing_configuration [OF p2 _ _ fresh_no_config setup_fresh, of "[]"]
  have 2: "fst (main example_env [Full] [] fresh) = Exit 1" by simp
  from 1 have "stdout (snd (main example_env [Status] [] fresh)) =
     lit ''No configuration found. Initialize with --theme and --instruments.'' @ [10]"
    by (simp add: print_def fresh_def)
  with p1 s 1 2 show ?thesis by simp
qed

text \<open>
  C3 (as amended). A run without any option never prints the help text as long as the
  configuration it finds is absent or true as a condition. With the directory bootstrap
  succeeding: when nothing is stored at the configuration path it prints the error
  message with the path and the hint and exits with status 1; when the configuration
  file holds a value that is true as a condition (a saved configuration is) it prints
  the overview of that configuration and the list of phase commands; only when the file
  holds a value that is false as a condition, such as \<open>{}\<close>, it prints the help text.
\<close>

theorem no_flags:
  assumes "setup_directories (files w) = (Inr (), fs')"
  shows "(files w config_path = None \<longrightarrow>
            main env [] now w = (Exit 1, missing_configuration_report env (w\<lparr>files := fs'\<rparr>))) \<and>
         (files w config_path = Some (File text) \<and> json_loads text = Inr config \<and> truthy config \<longrightarrow>
            main env [] now w =
              (case print_full_workflow config (w\<lparr>files := fs'\<rparr>) of
                 (Inl e, w') \<Rightarrow> (Uncaught e, w')
               | (Inr u, w') \<Rightarrow> (Exit 0, phase_commands w'))) \<and>
         (files w config_path = Some (File text) \<and> json_loads text = Inr config \<and> \<not> truthy config \<longrightarrow>
            main env [] now w = (Exit 0, w\<lparr>files := fs', stdout := stdout w @ help_text env\<rparr>))"
proof (intro conjI impI)
  assume "files w config_path = None"
  from main_no_configuration [OF parse_args_Nil _ _ this assms]
  show "main env [] now w = (Exit 1, missing_configuration_report env (w\<lparr>files := fs'\<rparr>))"
    by simp
next
  assume a: "files w config_path = Some (File text) \<and> json_loads text = Inr config \<and> truthy config"
  then have "main env [] now w = execute_action env default_args config (w\<lparr>files := fs'\<rparr>)"
    using main_loaded [OF parse_args_Nil _ _ _ _ assms, of "text" config] by simp
  with a show "main env [] now w =
      (case print_full_workflow config (w\<lparr>files := fs'\<rparr>) of
         (Inl e, w') \<Rightarrow> (Uncaught e, w')
       | (Inr u, w') \<Rightarrow> (Exit 0, phase_commands w'))"
    by (simp add: execute_action_overview)
next
  assume a: "files w config_path = Some (File text) \<and> json_loads text = Inr config \<and> \<not> truthy config"
  then have "main env [] now w = execute_action env default_args config (w\<lparr>files := fs'\<rparr>)"
    using main_loaded [OF parse_args_Nil _ _ _ _ assms, of "text" config] by simp
  with a show "main env [] now w = (Exit 0, w\<lparr>files := fs', stdout := stdout w @ help_text env\<rparr>)"
    by (simp add: execute_action_help)
qed

theorem no_flags_witness:
  "fst (setup_directories (files fresh)) = Inr () \<and> files fresh config_path = None \<and>
   main example_env [] [] fresh =
     (Exit 1, missing_configuration_report example_env
                (fresh\<lparr>files := snd (setup_directories (files fresh))\<rparr>))"
proof -
  from setup_fresh have s: "fst (setup_directories (files fresh)) = Inr ()" by (metis fst_conv)
  from no_flags [OF setup_fresh, where env = example_env and now = "[]"] s show ?thesis by simp
qed

text \<open>
  The claim as stated fails: without options and without a configuration file the run
  ends with status 1 and what it has printed is not the help text.
\<close>

theorem no_flags_counterexample:
  "exit_status (fst (main example_env [] [] fresh)) = 1 \<and>
   stdout (snd (main example_env [] [] fresh)) \<noteq> help_text example_env"
proof -
  from main_no_configuration [where env = example_env and now = "[]",
         OF parse_args_Nil _ _ fresh_no_config setup_fresh]
  have "main example_env [] [] fresh =
      (Exit 1, missing_configuration_report example_env
                 (fresh\<lparr>files := snd (setup_directories (files fresh))\<rparr>))"
    by simp
  then show ?thesis
    by (simp add: missing_configuration_report_def print_def fresh_def example_env_def lit_def)
qed

text \<open>
  C4 (as amended). \<open>print_phase_instructions\<close> is a lookup in a fixed table: for a
  recognized phase it prints the block of that phase and changes no file. A run with
  \<open>--phase\<close> alone prints that block and exits with status 0 whenever the directory
  bootstrap succeeds and the configuration file holds any JSON value; when nothing is
  stored at the configuration path it prints the error message and the hint instead
  and exits with status 1.
\<close>

theorem phase_instructions:
  assumes "p \<in> set PHASES" and "setup_directories (files w) = (Inr (), fs')"
  shows "(\<exists>block_text. map_of instructions p = Some block_text \<and>
            print_phase_instructions p w = w\<lparr>stdout := stdout w @ block_text @ [10]\<rparr>) \<and>
         (files w config_path = Some (File text) \<and> json_loads text = Inr config \<longrightarrow>
            main env [Phase p] now w = (Exit 0, print_phase_instructions p (w\<lparr>files := fs'\<rparr>))) \<and>
         (files w config_path = None \<longrightarrow>
            main env [Phase p] now w =
              (Exit 1, missing_configuration_report env (w\<lparr>files := fs'\<rparr>)))"
proof (intro conjI impI)
  from map_of_instructions_Some [OF assms(1)]
  show "\<exists>block_text. map_of instructions p = Some block_text \<and>
          print_phase_instructions p w = w\<lparr>stdout := stdout w @ block_text @ [10]\<rparr>"
    by (auto simp: print_phase_instructions_def print_def)
next
  note parse = parse_args_Phase [OF assms(1), of env]
  assume a: "files w config_path = Some (File text) \<and> json_loads text = Inr config"
  then have "main env [Phase p] now w =
      execute_action env (default_args\<lparr>arg_phase := Some p\<rparr>) config (w\<lparr>files := fs'\<rparr>)"
    using main_loaded [OF parse _ _ _ _ assms(2), of "text" config] by simp
  then show "main env [Phase p] now w = (Exit 0, print_phase_instructions p (w\<lparr>files := fs'\<rparr>))"
    using PHASES_nonempty [OF assms(1)] by (simp add: execute_action_phase)
next
  note parse = parse_args_Phase [OF assms(1), of env]
  assume "files w config_path = None"
  from main_no_configuration [OF parse _ _ this assms(2)]
  show "main env [Phase p] now w = (Exit 1, missing_configuration_report env (w\<lparr>files := fs'\<rparr>))"
    by simp
qed

theorem phase_instructions_witness:
  "lit ''write'' \<in> set PHASES \<and> fst (setup_directories (files fresh)) = Inr () \<and>
   files fresh config_path = None \<and>
   fst (main example_env [Phase (lit ''write'')] [] fresh) = Exit 1 \<and>
   map_of instructions (lit ''write'') = Some instructions_write"
proof -
  have 1: "lit ''write'' \<in> set PHASES" by (simp add: PHASES_def)
  from setup_fresh have s: "fst (setup_directories (files fresh)) = Inr ()" by (metis fst_conv)
  have m: "map_of instructions (lit ''write'') = Some instructions_write"
    by (simp add: instructions_def lit_def)
  from phase_instructions [OF 1 setup_fresh, where env = example_env and now = "[]"] 1 s m
  show ?thesis by simp
qed

text \<open>
  The claim as stated fails: with \<open>--phase research\<close> and no configuration file the run
  ends with status 1, and what it has printed is the error report, not the block.
\<close>

theorem phase_instructions_counterexample:
  "exit_status (fst (main example_env [Phase (lit ''research'')] [] fresh)) = 1 \<and>
   snd (main example_env [Phase (lit ''research'')] [] fresh) =
     missing_configuration_report example_env
       (fresh\<lparr>files := snd (setup_directories (files fresh))\<rparr>)"
proof -
  have 1: "lit ''research'' \<in> set PHASES" by (simp add: PHASES_def)
  from main_no_configuration [where env = example_env and now = "[]",
         OF parse_args_Phase [OF 1] _ _ fresh_no_config setup_fresh]
  show ?thesis by simp
qed

section \<open>The overview\<close>

lemma comma_join_strings: "comma_join (JList (map JStr ins)) = Inr (join (lit '', '') ins)"
proof -
  have "list_all (\<lambda>x. the_JStr x \<noteq> None) (map JStr ins)" by (induction ins) simp_all
  moreover have "map (\<lambda>x. case the_JStr x of Some s \<Rightarrow> s | None \<Rightarrow> []) (map JStr ins) = ins"
    by (induction ins) simp_all
  ultimately show ?thesis by simp
qed

lemma item_create_config:
  "item (create_config t ins n now) (lit ''theme'') = Inr (JStr t)"
  "item (create_config t ins n now) (lit ''instruments'') = Inr (JList (map JStr ins))"
  "item (create_config t ins n now) (lit ''sample_size'') = Inr (JInt n)"
  by (simp_all add: create_config_def lit_def)

lemma workflow_text_create_config:
  "workflow_text (create_config t ins n now) =
     Inr (workflow_block (ljust 56 (take 56 t)) (ljust 52 (join (lit '', '') ins))
            (ljust 53 (int_str n)))"
  by (simp add: workflow_text_def and_then_def item_create_config comma_join_strings
           del: comma_join.simps)

lemma workflow_text_theme:
  assumes "item config (lit ''theme'') = Inr (JStr t)" and "workflow_text config = Inr text"
  shows "\<exists>i s. text = workflow_block (ljust 56 (take 56 t)) i s"
  using assms by (auto simp: workflow_text_def and_then_def split: sum.splits)

lemma ljust_take: "ljust n (take n t) = take n t @ replicate (n - length t) 32"
  by (simp add: ljust_def min_def)

text \<open>
  C9. The overview shows the first 56 code points of the theme, padded with spaces to
  56 columns when the theme is shorter: for a theme longer than 56 code points the
  field is exactly the first 56, and nothing tells that the rest was cut. Printing the
  overview changes no file and the configuration keeps its whole theme; for a
  configuration made by \<open>create_config\<close> the printed text is the same as for the theme
  cut to 56 code points.
\<close>

theorem overview_truncates_theme:
  assumes "item config (lit ''theme'') = Inr (JStr t)" and "workflow_text config = Inr text"
  shows "(\<exists>i s. text = workflow_block (take 56 t @ replicate (56 - length t) 32) i s) \<and>
         (56 < length t \<longrightarrow> (\<exists>i s. text = workflow_block (take 56 t) i s)) \<and>
         print_full_workflow config w = (Inr (), w\<lparr>stdout := stdout w @ text @ [10]\<rparr>) \<and>
         workflow_text (create_config t ins n now) =
           workflow_text (create_config (take 56 t) ins n now) \<and>
         item (create_config t ins n now) (lit ''theme'') = Inr (JStr t)"
proof (intro conjI impI)
  from workflow_text_theme [OF assms]
  show 1: "\<exists>i s. text = workflow_block (take 56 t @ replicate (56 - length t) 32) i s"
    by (simp add: ljust_take)
  assume "56 < length t"
  with 1 show "\<exists>i s. text = workflow_block (take 56 t) i s" by simp
next
  from assms(2) show "print_full_workflow config w = (Inr (), w\<lparr>stdout := stdout w @ text @ [10]\<rparr>)"
    by (simp add: print_full_workflow_def print_def)
next
  show "workflow_text (create_config t ins n now) =
          workflow_text (create_config (take 56 t) ins n now)"
    by (simp add: workflow_text_create_config)
next
  show "item (create_config t ins n now) (lit ''theme'') = Inr (JStr t)"
    by (rule item_create_config)
qed

theorem overview_truncates_theme_witness:
  "item (create_config (replicate 60 65) [lit ''EQ-i''] 50 []) (lit ''theme'') =
     Inr (JStr (replicate 60 65)) \<and>
   (56::nat) < length (replicate 60 (65::nat)) \<and>
   workflow_text (create_config (replicate 60 65) [lit ''EQ-i''] 50 []) =
     Inr (workflow_block (replicate 56 65) (ljust 52 (lit ''EQ-i'')) (ljust 53 (int_str 50)))"
proof -
  let ?c = "create_config (replicate 60 65) [lit ''EQ-i''] 50 []"
  let ?text = "workflow_block (ljust 56 (take 56 (replicate 60 65))) (ljust 52 (join (lit '', '') [lit ''EQ-i'']))
            (ljust 53 (int_str 50))"
  have 1: "item ?c (lit ''theme'') = Inr (JStr (replicate 60 65))" by (rule item_create_config)
  have 2: "workflow_text ?c = Inr ?text" by (rule workflow_text_create_config)
  from overview_truncates_theme [OF 1 2] have "\<exists>i s. ?text = workflow_block (take 56 (replicate 60 65)) i s"
    by simp
  with 1 2 show ?thesis by (simp add: ljust_def)
qed

section \<open>The directory bootstrap\<close>

text \<open>
  C8. The directory bootstrap is idempotent. From every state of the file system, a
  second run leaves the tree that the first run has left, and it raises an exception
  only if the first run did; when the output subdirectories and the input directory
  are there already, the run raises nothing and changes nothing.
\<close>

theorem setup_directories_idempotent:
  "snd (setup_directories (snd (setup_directories fs))) = snd (setup_directories fs) \<and>
   (isl (fst (setup_directories (snd (setup_directories fs)))) \<longleftrightarrow>
      isl (fst (setup_directories fs))) \<and>
   (list_all (is_dir fs) (output_subdirs @ [INPUTS_DIR]) \<longrightarrow>
      setup_directories fs = (Inr (), fs))"
proof -
  obtain r fs' where s: "setup_directories fs = (r, fs')" by (cases "setup_directories fs")
  from setup_directories_again [OF s] obtain r'
    where "setup_directories fs' = (r', fs')" and "isl r' \<longleftrightarrow> isl r" by blast
  with s have "snd (setup_directories (snd (setup_directories fs))) = snd (setup_directories fs)"
    and "isl (fst (setup_directories (snd (setup_directories fs)))) \<longleftrightarrow>
      isl (fst (setup_directories fs))" by simp_all
  moreover have "list_all (is_dir fs) (output_subdirs @ [INPUTS_DIR]) \<longrightarrow>
      setup_directories fs = (Inr (), fs)"
    by (simp add: setup_directories_of_is_dir list_all_iff)
  ultimately show ?thesis by blast
qed

theorem setup_directories_idempotent_witness:
  "list_all (is_dir (snd (setup_directories Map.empty))) (output_subdirs @ [INPUTS_DIR]) \<and>
   setup_directories (snd (setup_directories Map.empty)) =
     (Inr (), snd (setup_directories Map.empty))"
proof -
  have "list_all (is_dir (snd (setup_directories Map.empty))) (output_subdirs @ [INPUTS_DIR])"
    by (simp add: setup_directories_def output_subdirs_eq INPUTS_DIR_def lit_def
          mkdir.simps os_mkdir_def stat.simps is_dir_def)
  with setup_directories_idempotent [of "snd (setup_directories Map.empty)"]
  show ?thesis by blast
qed

section \<open>Creating or loading the configuration\<close>

text \<open>
  C10. A run creates and saves a configuration only when both \<open>--theme\<close> and
  \<open>--instruments\<close> are given with non-empty strings: then (the directory bootstrap
  succeeding and no directory standing at the configuration path) the configuration
  file holds the dump of the configuration created from them. Otherwise, with only one
  of them or with an empty string for one, the run is the run of the command line
  without these options, the configuration file is left as it was, and the
  configuration is loaded from the path of \<open>--config\<close> if that is given and from the
  default path if not.
\<close>

theorem theme_and_instruments:
  assumes "parse_args env argv = Parsed a"
  shows "(given (arg_theme a) \<and> given (arg_instruments a) \<and>
          setup_directories (files w) = (Inr (), fs') \<and> files w config_path \<noteq> Some Dir \<longrightarrow>
            files (snd (main env argv now w)) config_path =
              Some (File (json_dumps (create_config (the_str (arg_theme a))
                                        (parse_instruments (the_str (arg_instruments a)))
                                        (arg_sample a) now)))) \<and>
         (\<not> (given (arg_theme a) \<and> given (arg_instruments a)) \<longrightarrow>
            main env argv now w = main env (without_theme_instruments argv) now w \<and>
            files (snd (main env argv now w)) config_path = files w config_path \<and>
            handle_configuration env a now w =
              (if given (arg_config a) then
                 (case open_read env (files w) (resolve env (the_str (arg_config a))) of
                    Inl e \<Rightarrow> (Inl (Uncaught e), w)
                  | Inr text \<Rightarrow>
                      (case json_loads text of
                         Inl e \<Rightarrow> (Inl (Uncaught e), w)
                       | Inr config \<Rightarrow> (Inr config, w)))
               else
                 (case load_config env (files w) of
                    Inr config \<Rightarrow> (Inr config, w)
                  | Inl (FileNotFoundError msg) \<Rightarrow>
                      if \<not> arg_status a
                      then (Inl (Exit 1),
                            print (lit ''  python run.py --theme '' @ [34] @ lit ''Your Theme'' @ [34] @
                                   lit '' --instruments '' @ [34] @ lit ''SCALE1,SCALE2'' @ [34])
                              (print (10 # lit ''Run with --theme and --instruments to initialize:'')
                                 (print (lit ''Error: '' @ msg) w)))
                      else (Inr JNull, w)
                  | Inl e \<Rightarrow> (Inl (Uncaught e), w))))"
proof (intro conjI impI)
  assume "given (arg_theme a) \<and> given (arg_instruments a) \<and>
          setup_directories (files w) = (Inr (), fs') \<and> files w config_path \<noteq> Some Dir"
  then show "files (snd (main env argv now w)) config_path =
      Some (File (json_dumps (create_config (the_str (arg_theme a))
                                (parse_instruments (the_str (arg_instruments a)))
                                (arg_sample a) now)))"
    using main_saves [OF assms] by blast
next
  assume n: "\<not> (given (arg_theme a) \<and> given (arg_instruments a))"
  from main_without [OF assms n]
  show "main env argv now w = main env (without_theme_instruments argv) now w" by simp
  from main_keeps_config_file [OF assms n]
  show "files (snd (main env argv now w)) config_path = files w config_path" .
  from handle_configuration_fallback [OF n]
  show "handle_configuration env a now w =
      (if given (arg_config a) then
         (case open_read env (files w) (resolve env (the_str (arg_config a))) of
            Inl e \<Rightarrow> (Inl (Uncaught e), w)
          | Inr text \<Rightarrow>
              (case json_loads text of
                 Inl e \<Rightarrow> (Inl (Uncaught e), w)
               | Inr config \<Rightarrow> (Inr config, w)))
       else
         (case load_config env (files w) of
            Inr config \<Rightarrow> (Inr config, w)
          | Inl (FileNotFoundError msg) \<Rightarrow>
              if \<not> arg_status a
              then (Inl (Exit 1),
                    print (lit ''  python run.py --theme '' @ [34] @ lit ''Your Theme'' @ [34] @
                           lit '' --instruments '' @ [34] @ lit ''SCALE1,SCALE2'' @ [34])
                      (print (10 # lit ''Run with --theme and --instruments to initialize:'')
                         (print (lit ''Error: '' @ msg) w)))
              else (Inr JNull, w)
          | Inl e \<Rightarrow> (Inl (Uncaught e), w)))" .
qed

theorem theme_and_instruments_witness:
  "parse_args example_env [Theme (lit ''Burnout''), Instruments (lit ''EQ-i,MBI'')] =
     Parsed (default_args\<lparr>arg_theme := Some (lit ''Burnout''),
                          arg_instruments := Some (lit ''EQ-i,MBI'')\<rparr>) \<and>
   files (snd (main example_env [Theme (lit ''Burnout''), Instruments (lit ''EQ-i,MBI'')] [] fresh))
     config_path =
     Some (File (json_dumps (create_config (lit ''Burnout'') [lit ''EQ-i'', lit ''MBI''] 50 []))) \<and>
   parse_args example_env [Theme (lit ''Burnout''), Instruments [], Status] =
     Parsed (default_args\<lparr>arg_theme := Some (lit ''Burnout''), arg_instruments := Some [],
                          arg_status := True\<rparr>) \<and>
   main example_env [Theme (lit ''Burnout''), Instruments [], Status] [] fresh =
     main example_env [Status] [] fresh \<and>
   files (snd (main example_env [Theme (lit ''Burnout''), Instruments [], Status] [] fresh))
     config_path = None"
proof -
  let ?a1 = "default_args\<lparr>arg_theme := Some (lit ''Burnout''),
                           arg_instruments := Some (lit ''EQ-i,MBI'')\<rparr>"
  let ?a2 = "default_args\<lparr>arg_theme := Some (lit ''Burnout''), arg_instruments := Some [],
                           arg_status := True\<rparr>"
  have p1: "parse_args example_env [Theme (lit ''Burnout''), Instruments (lit ''EQ-i,MBI'')] =
              Parsed ?a1"
    by (simp add: parse_args_def)
  have p2: "parse_args example_env [Theme (lit ''Burnout''), Instruments [], Status] = Parsed ?a2"
    by (simp add: parse_args_def)
  have g1: "given (arg_theme ?a1) \<and> given (arg_instruments ?a1)" by (simp add: lit_def)
  have g2: "\<not> (given (arg_theme ?a2) \<and> given (arg_instruments ?a2))" by simp
  have pi: "parse_instruments (lit ''EQ-i,MBI'') = [lit ''EQ-i'', lit ''MBI'']"
    by (simp add: parse_instruments_def split_def lit_def strip_def isspace_def)
  from theme_and_instruments [OF p1, of fresh "snd (setup_directories (files fresh))" "[]"]
    g1 setup_fresh
  have 1: "files (snd (main example_env [Theme (lit ''Burnout''), Instruments (lit ''EQ-i,MBI'')] []
                    fresh)) config_path =
     Some (File (json_dumps (create_config (lit ''Burnout'') [lit ''EQ-i'', lit ''MBI''] 50 [])))"
    by (simp add: pi)
  let ?argv = "[Theme (lit ''Burnout''), Instruments [], Status]"
  from theme_and_instruments [OF p2, of fresh _ "[]"] g2
  have 2: "main example_env ?argv [] fresh =
             main example_env (without_theme_instruments ?argv) [] fresh"
    and 3: "files (snd (main example_env ?argv [] fresh)) config_path = files fresh config_path"
    by blast+
  from 2 have m2: "main example_env ?argv [] fresh = main example_env [Status] [] fresh"
    by (simp add: without_theme_instruments_def)
  from p1 p2 1 m2 3 show ?thesis by simp
qed

end
